theory Spec2Isabelle
  imports Main "HOL-Library.AList"
begin

section \<open>Go values, results and formatting\<close>

text \<open>
  The provider is Go code against three libraries: the standard library (net/http,
  encoding/json, fmt, time, io/ioutil), the Vault API client and Terraform's schema
  helper. The functions of the provider are embedded below as HOL functions. What the
  libraries and the outside world answer (a file's contents, an HTTP response, what a
  JSON document decodes to, what Vault returns, the clock) is a parameter of the
  embedding: the record \<open>env\<close>. The calls the provider itself makes to the file
  system, to the login endpoint and to Vault are also written to a list of effects, in
  the order in which the code makes them.
\<close>

type_synonym error = string
  \<comment> \<open>a non-nil Go \<open>error\<close>, by the text of its \<open>Error()\<close>\<close>

datatype goval =
    VNil
  | VBool bool
  | VNumber string
  | VString string
  | VInt int
  | VSlice "goval list"
  | VMap "(string \<times> goval) list"
  | VStringMap "(string \<times> string) list"
  \<comment> \<open>A Go \<open>interface{}\<close> value. Vault's client decodes a secret's data to nil, bool,
      \<open>json.Number\<close> (the literal's text), string, slices and string-keyed maps; the
      provider itself also stores int and \<open>map[string]string\<close> values. A Go map holds
      each key once; the list gives its entries in the order a \<open>range\<close> visits them.\<close>

datatype panic = NilDereference | TypeAssertion

datatype 'a outcome = Return 'a | Panic panic
  \<comment> \<open>a call either returns or panics (and takes the process down)\<close>

fun fmt_s :: "error option \<Rightarrow> string" where
  "fmt_s None = ''%!s(<nil>)''"
| "fmt_s (Some err) = err"
  \<comment> \<open>the verb \<open>%s\<close> of \<open>fmt.Errorf\<close> on an \<open>error\<close> operand\<close>

fun digits :: "nat \<Rightarrow> string" where
  "digits n =
     (if n < 10 then [''0123456789'' ! n]
      else digits (n div 10) @ [''0123456789'' ! (n mod 10)])"

declare digits.simps [simp del]

definition fmt_d :: "int \<Rightarrow> string" where
  "fmt_d i = (if i < 0 then ''-'' @ digits (nat (- i)) else digits (nat i))"
  \<comment> \<open>the verb \<open>%d\<close> on an \<open>int\<close>\<close>

definition assertString :: "goval \<Rightarrow> string option" where
  "assertString v = (case v of VString s \<Rightarrow> Some s | _ \<Rightarrow> None)"
  \<comment> \<open>\<open>v.(string)\<close>: \<open>None\<close> where the one-result form panics and the two-result form
      gives \<open>ok = false\<close>\<close>

definition mapIndex :: "(string \<times> goval) list option \<Rightarrow> string \<Rightarrow> goval" where
  "mapIndex m k =
     (case m of
        None \<Rightarrow> VNil
      | Some kvs \<Rightarrow> (case map_of kvs k of None \<Rightarrow> VNil | Some v \<Rightarrow> v))"
  \<comment> \<open>\<open>m[k]\<close> on a \<open>map[string]interface{}\<close> (\<open>None\<close> is the nil map): the zero value
      nil where the key is absent\<close>

definition mapHas :: "(string \<times> goval) list option \<Rightarrow> string \<Rightarrow> bool" where
  "mapHas m k =
     (case m of
        None \<Rightarrow> False
      | Some kvs \<Rightarrow> (case map_of kvs k of None \<Rightarrow> False | Some v \<Rightarrow> True))"
  \<comment> \<open>the second result of \<open>_, present := m[k]\<close>\<close>

definition mapEntries :: "(string \<times> goval) list option \<Rightarrow> (string \<times> goval) list" where
  "mapEntries m = (case m of None \<Rightarrow> [] | Some kvs \<Rightarrow> kvs)"
  \<comment> \<open>what \<open>for k, v := range m\<close> visits (nothing for the nil map)\<close>

definition mapValue :: "(string \<times> goval) list option \<Rightarrow> goval" where
  "mapValue m = (case m of None \<Rightarrow> VNil | Some kvs \<Rightarrow> VMap kvs)"
  \<comment> \<open>the map passed as an \<open>interface{}\<close> argument\<close>

definition mapAssign :: "(string \<times> 'v) list \<Rightarrow> string \<Rightarrow> 'v \<Rightarrow> (string \<times> 'v) list" where
  "mapAssign m k v = AList.update k v m"
  \<comment> \<open>\<open>m[k] = v\<close>\<close>

section \<open>Library types\<close>

definition time_Second :: int where
  "time_Second = 1000000000"
  \<comment> \<open>\<open>time.Second\<close>, a \<open>Duration\<close> in nanoseconds\<close>

definition time_RFC3339 :: string where
  "time_RFC3339 = ''2006-01-02T15:04:05Z07:00''"
  \<comment> \<open>the layout constant \<open>time.RFC3339\<close>\<close>

record http_client =
  Timeout :: int
  Transport :: "string option"
  \<comment> \<open>\<open>http.Client\<close>: \<open>Timeout\<close> zero means no timeout; \<open>Transport\<close> is \<open>None\<close> for the
      default transport and \<open>Some pem\<close> for a transport whose root pool was filled from
      the certificate text \<open>pem\<close>\<close>

record http_request =
  Method :: string
  URL :: string
  ReqBody :: string

record http_response =
  StatusCode :: int
  Body :: string

record SecretAuth =
  ClientToken :: string

record Secret =
  RequestID :: string
  LeaseID :: string
  LeaseDuration :: int
  Renewable :: bool
  Data :: "(string \<times> goval) list option"
  Auth :: "SecretAuth option"
  \<comment> \<open>\<open>api.Secret\<close>, with the fields the provider reads; \<open>Auth\<close> is a pointer\<close>

record TLSConfig =
  CACert :: string
  CAPath :: string
  Insecure :: bool
  ClientCert :: string
  ClientKey :: string

record api_client =
  Address :: string
  Token :: string
  \<comment> \<open>\<open>api.Client\<close>: the address it was configured with and the token it presents\<close>

datatype effect =
    ReadFile string
  | HttpDo http_client http_request
  | VaultRead api_client string
  | VaultWrite api_client string "(string \<times> goval) list"

record env =
  readFile :: "string \<Rightarrow> error + string"
  validURL :: "string \<Rightarrow> bool"
  httpDo :: "http_client \<Rightarrow> http_request \<Rightarrow> http_response option \<times> error option"
  unmarshalSecret :: "string \<Rightarrow> error + Secret"
  marshal :: "goval \<Rightarrow> string"
  configureTLS :: "TLSConfig \<Rightarrow> error option"
  newClient :: "string \<Rightarrow> error option"
  vaultRead :: "api_client \<Rightarrow> string \<Rightarrow> Secret option \<times> error option"
  vaultWrite ::
    "api_client \<Rightarrow> string \<Rightarrow> (string \<times> goval) list \<Rightarrow> Secret option \<times> error option"
  now :: int
  timeFormat :: "int \<Rightarrow> string \<Rightarrow> string"
  \<comment> \<open>\<open>readFile\<close>: \<open>ioutil.ReadFile\<close>. \<open>validURL\<close>: whether \<open>url.Parse\<close> accepts the text.
      \<open>httpDo\<close>: \<open>(*http.Client).Do\<close>, its two results, the body already read by
      \<open>ioutil.ReadAll\<close>. \<open>unmarshalSecret\<close>: \<open>json.Unmarshal\<close> into an \<open>api.Secret\<close>.
      \<open>marshal\<close>: \<open>json.Marshal\<close>, as the string of its bytes. \<open>configureTLS\<close>:
      \<open>(*api.Config).ConfigureTLS\<close>. \<open>newClient\<close>: \<open>api.NewClient\<close> on a configuration
      with the given address. \<open>vaultRead\<close>, \<open>vaultWrite\<close>: \<open>Logical().Read\<close> and
      \<open>Logical().Write\<close>, their two results. \<open>now\<close>: the instant \<open>time.Now()\<close> returns.
      \<open>timeFormat t layout\<close>: \<open>t.Format(layout)\<close>.\<close>

definition http_NewRequest :: "env \<Rightarrow> string \<Rightarrow> string \<Rightarrow> string \<Rightarrow> http_request option" where
  "http_NewRequest e m u b =
     (if validURL e u then Some \<lparr>Method = m, URL = u, ReqBody = b\<rparr> else None)"
  \<comment> \<open>\<open>http.NewRequest\<close> with a valid method: a nil request when the URL does not parse\<close>

section \<open>The provider: federated login and Configure\<close>

record client_auth_block =
  cert_file :: string
  key_file :: string

record provider_data =
  address :: string
  token :: string
  personal_access_token :: string
  github_org :: string
  namespace_domain :: string
  ca_cert_file :: string
  ca_cert_dir :: string
  client_auth :: "client_auth_block list"
  skip_tls_verify :: bool
  max_lease_ttl_seconds :: int
  \<comment> \<open>the provider's \<open>schema.ResourceData\<close>: one field for each key of its schema, of
      the key's declared type\<close>

record ResourceContext =
  client :: api_client
  githubOrg :: string
  namespaceDomain :: string

definition loginURL :: "provider_data \<Rightarrow> string" where
  "loginURL d =
     address d @ ''/v1/auth/'' @ (''github/'' @ namespace_domain d @ ''/'' @ github_org d)
       @ ''/login''"
  \<comment> \<open>\<open>vaultGitHubURL\<close>, with \<open>githubPath\<close> in the parentheses\<close>


definition loginBody :: "provider_data \<Rightarrow> string" where
  \<open>loginBody d = ''{"token":"'' @ personal_access_token d @ ''"}''\<close>
  \<comment> \<open>\<open>jsonStr\<close>\<close>

definition githubLogin :: "env \<Rightarrow> provider_data \<Rightarrow> effect list \<times> (error + string) outcome" where
  "githubLogin e d =
     (if personal_access_token d = '''' \<or> github_org d = '''' \<or> namespace_domain d = '''' then
        ([], Return (Inl ''Missing personal_access_token or github_org or namespace_domain''))
      else
        let vaultCaCertFile = ca_cert_file d in
        case (if vaultCaCertFile \<noteq> '''' then
                (case readFile e vaultCaCertFile of
                   Inl err \<Rightarrow> ([ReadFile vaultCaCertFile], Inl err)
                 | Inr caCert \<Rightarrow>
                     ([ReadFile vaultCaCertFile],
                      Inr \<lparr>Timeout = 0, Transport = Some caCert\<rparr>))
              else
                ([], Inr \<lparr>Timeout = time_Second * 10, Transport = None\<rparr>)) of
          (fx, Inl err) \<Rightarrow> (fx, Return (Inl err))
        | (fx, Inr cl) \<Rightarrow>
            (case http_NewRequest e ''POST'' (loginURL d) (loginBody d) of
               None \<Rightarrow> (fx, Panic NilDereference)
             | Some authRequest \<Rightarrow>
                 (case httpDo e cl authRequest of
                    (resp, Some err) \<Rightarrow> (fx @ [HttpDo cl authRequest], Return (Inl err))
                  | (None, None) \<Rightarrow>
                      (fx @ [HttpDo cl authRequest],
                       Return (Inl ''No response from vault during approle auth''))
                  | (Some resp, None) \<Rightarrow>
                      if StatusCode resp \<noteq> 200 then
                        (fx @ [HttpDo cl authRequest],
                         Return (Inl (''Vault authentication to GitHub Status ''
                                      @ fmt_d (StatusCode resp))))
                      else
                        (case unmarshalSecret e (Body resp) of
                           Inl err \<Rightarrow> (fx @ [HttpDo cl authRequest], Return (Inl err))
                         | Inr payload \<Rightarrow>
                             (case Auth payload of
                                None \<Rightarrow> (fx @ [HttpDo cl authRequest], Panic NilDereference)
                              | Some auth \<Rightarrow>
                                  (fx @ [HttpDo cl authRequest],
                                   Return (Inr (ClientToken auth))))))))"
  \<comment> \<open>The client is the one with the ten-second timeout unless \<open>ca_cert_file\<close> is set;
      then it is replaced by the literal \<open>&http.Client{Transport: ...}\<close>, whose
      \<open>Timeout\<close> is the zero value. The error of \<open>http.NewRequest\<close> is dropped, so a nil
      request reaches \<open>client.Do\<close>, which dereferences it. \<open>payload.Auth.ClientToken\<close>
      dereferences the pointer \<open>payload.Auth\<close>.\<close>

definition providerTLSConfig :: "provider_data \<Rightarrow> TLSConfig" where
  "providerTLSConfig d =
     (let clientAuthI = client_auth d in
      \<lparr>CACert = ca_cert_file d, CAPath = ca_cert_dir d, Insecure = skip_tls_verify d,
       ClientCert = (case clientAuthI of [clientAuth] \<Rightarrow> cert_file clientAuth | _ \<Rightarrow> ''''),
       ClientKey = (case clientAuthI of [clientAuth] \<Rightarrow> key_file clientAuth | _ \<Rightarrow> '''')\<rparr>)"
  \<comment> \<open>the \<open>api.TLSConfig\<close> literal: the client certificate and key are set when
      \<open>len(clientAuthI) == 1\<close> and stay empty otherwise\<close>

definition providerConfigure ::
  "env \<Rightarrow> provider_data \<Rightarrow> effect list \<times> (error + ResourceContext) outcome" where
  "providerConfigure e d =
     (if length (client_auth d) > 1 then
        ([], Return (Inl ''client_auth block may appear only once''))
      else
        case configureTLS e (providerTLSConfig d) of
          Some err \<Rightarrow> ([], Return (Inl (''failed to configure TLS for Vault API: '' @ err)))
        | None \<Rightarrow>
            (case newClient e (address d) of
               Some err \<Rightarrow> ([], Return (Inl (''failed to configure Vault API: '' @ err)))
             | None \<Rightarrow>
                 (case (if personal_access_token d \<noteq> '''' then githubLogin e d
                        else ([], Return (Inr (token d)))) of
                    (fx, Panic p) \<Rightarrow> (fx, Panic p)
                  | (fx, Return (Inl err)) \<Rightarrow> (fx, Return (Inl err))
                  | (fx, Return (Inr tok)) \<Rightarrow>
                      if tok = '''' then
                        (fx, Return (Inl ''No authentication token was supplied!''))
                      else
                        (fx, Return (Inr \<lparr>client = \<lparr>Address = address d, Token = tok\<rparr>,
                                          githubOrg = github_org d,
                                          namespaceDomain = namespace_domain d\<rparr>)))))"
  \<comment> \<open>\<open>token\<close> starts as the static token and is overwritten by the login's result when
      \<open>personal_access_token\<close> is set\<close>

section \<open>Resources: the attribute bag\<close>

record ResourceData =
  ident :: string
  attrs :: "string \<rightharpoonup> goval"
  \<comment> \<open>a resource's \<open>schema.ResourceData\<close>: its identity and its attributes by name\<close>

definition GetId :: "ResourceData \<Rightarrow> string" where
  "GetId d = ident d"
  \<comment> \<open>\<open>d.Id()\<close>\<close>

definition SetId :: "ResourceData \<Rightarrow> string \<Rightarrow> ResourceData" where
  "SetId d v = d\<lparr>ident := v\<rparr>"

definition GetString :: "ResourceData \<Rightarrow> string \<Rightarrow> string" where
  "GetString d k = (case attrs d k of Some (VString s) \<Rightarrow> s | _ \<Rightarrow> '''')"
  \<comment> \<open>\<open>d.Get(k).(string)\<close> on a key of type \<open>TypeString\<close>: the zero value when unset\<close>

definition SetAttr :: "ResourceData \<Rightarrow> string \<Rightarrow> goval \<Rightarrow> ResourceData" where
  "SetAttr d k v = d\<lparr>attrs := (attrs d)(k \<mapsto> v)\<rparr>"
  \<comment> \<open>\<open>d.Set(k, v)\<close>, whose error result the provider never reads\<close>

type_synonym lifecycle_result = "effect list \<times> ResourceData \<times> error option outcome"
  \<comment> \<open>the calls made, the bag as the callback leaves it, and the returned \<open>error\<close>
      (\<open>None\<close> is nil) or the panic\<close>

section \<open>AppRole\<close>

definition approlePath :: "ResourceData \<Rightarrow> ResourceContext \<Rightarrow> string" where
  "approlePath d context =
     ''auth/approle/'' @ namespaceDomain context @ ''/'' @ githubOrg context @ ''/role/''
       @ GetString d ''repository''"

definition approleWrite :: "env \<Rightarrow> ResourceData \<Rightarrow> ResourceContext \<Rightarrow> lifecycle_result" where
  "approleWrite e d context =
     (let cl = client context;
          data = [];
          path = approlePath d context;
          fx1 = [VaultRead cl (path @ ''/role-id'')];
          fx2 = fx1 @ [VaultWrite cl (path @ ''/secret-id'') data]
      in case vaultRead e cl (path @ ''/role-id'') of
           (secretRole, Some err) \<Rightarrow>
             (fx1, d, Return (Some (''Error reading RoleID from Vault: '' @ fmt_s (Some err))))
         | (None, None) \<Rightarrow>
             (fx1, d, Return (Some (''Error reading RoleID from Vault: '' @ fmt_s None)))
         | (Some secretRole, None) \<Rightarrow>
             if \<not> mapHas (Data secretRole) ''role_id'' then
               (fx1, d, Return (Some ''RoleID not found''))
             else
               (case assertString (mapIndex (Data secretRole) ''role_id'') of
                  None \<Rightarrow> (fx1, d, Panic TypeAssertion)
                | Some roleID \<Rightarrow>
                    (case vaultWrite e cl (path @ ''/secret-id'') data of
                       (secret, Some err) \<Rightarrow>
                         (fx2, d,
                          Return (Some (''Error generating SecretID from Vault: ''
                                        @ fmt_s (Some err))))
                     | (None, None) \<Rightarrow>
                         (fx2, d,
                          Return (Some (''Error generating SecretID from Vault: ''
                                        @ fmt_s None)))
                     | (Some secret, None) \<Rightarrow>
                         if \<not> mapHas (Data secret) ''secret_id'' then
                           (fx2, d, Return (Some ''secretID not found''))
                         else
                           (case assertString (mapIndex (Data secret) ''secret_id'') of
                              None \<Rightarrow> (fx2, d, Panic TypeAssertion)
                            | Some secretID \<Rightarrow>
                                (fx2,
                                 SetAttr
                                   (SetAttr
                                      (SetAttr (SetId d path) ''role_id'' (VString roleID))
                                      ''secret_id'' (VString secretID))
                                   ''auth_path''
                                   (VString (Address cl @ ''/v1/auth/approle/''
                                             @ namespaceDomain context @ ''/''
                                             @ githubOrg context @ ''/login'')),
                                 Return None)))))"
  \<comment> \<open>\<open>err != nil || secretRole == nil\<close> is the first two cases, in the source's order;
      the one-result assertions \<open>.(string)\<close> panic on a value that is no string\<close>

definition approleRead :: "ResourceData \<Rightarrow> ResourceContext \<Rightarrow> lifecycle_result" where
  "approleRead d meta = ([], d, Return None)"

section \<open>Certificates\<close>

definition pkiWriteData :: "ResourceData \<Rightarrow> (string \<times> goval) list" where
  "pkiWriteData d =
     (let commonName = GetString d ''common_name'';
          altNames = GetString d ''alt_names'';
          ipSANS = GetString d ''ip_sans'';
          ttl = GetString d ''ttl'';
          data0 = mapAssign [] ''common_name'' (VString commonName);
          data1 = (if altNames \<noteq> '''' then mapAssign data0 ''alt_names'' (VString altNames)
                   else data0);
          data2 = (if ipSANS \<noteq> '''' then mapAssign data1 ''ip_sans'' (VString ipSANS)
                   else data1)
      in if ttl \<noteq> '''' then mapAssign data2 ''ttl'' (VString ttl) else data2)"
  \<comment> \<open>the request body \<open>data\<close> of \<open>pkiWrite\<close>\<close>

definition pkiWriteURI :: "ResourceData \<Rightarrow> ResourceContext \<Rightarrow> string" where
  "pkiWriteURI d context = GetString d ''path'' @ ''/issue/'' @ githubOrg context"

definition pkiWrite :: "env \<Rightarrow> ResourceData \<Rightarrow> ResourceContext \<Rightarrow> lifecycle_result" where
  "pkiWrite e d context =
     (let cl = client context;
          data = pkiWriteData d;
          uri = pkiWriteURI d context;
          fx = [VaultWrite cl uri data]
      in case vaultWrite e cl uri data of
           (secret, Some err) \<Rightarrow> (fx, d, Return (Some (''error writing to Vault: '' @ err)))
         | (None, None) \<Rightarrow> (fx, d, Panic NilDereference)
         | (Some secret, None) \<Rightarrow>
             (case assertString (mapIndex (Data secret) ''serial_number'') of
                None \<Rightarrow> (fx, d, Panic TypeAssertion)
              | Some id' \<Rightarrow>
                  (fx,
                   SetAttr
                     (SetAttr
                        (SetAttr
                           (SetAttr
                              (SetAttr (SetId d id') ''certificate''
                                 (mapIndex (Data secret) ''certificate''))
                              ''private_key'' (mapIndex (Data secret) ''private_key''))
                           ''issuing_ca'' (mapIndex (Data secret) ''issuing_ca''))
                        ''private_key_type'' (mapIndex (Data secret) ''private_key_type''))
                     ''serial_number'' (mapIndex (Data secret) ''serial_number''),
                   Return None)))"
  \<comment> \<open>after the error check the code reads \<open>secret.Data\<close> (a nil \<open>secret\<close> panics) and
      asserts \<open>secret.Data["serial_number"].(string)\<close> in the one-result form\<close>

definition pkiDeleteURI :: "ResourceData \<Rightarrow> string" where
  "pkiDeleteURI d = GetString d ''path'' @ ''/revoke''"

definition pkiDelete :: "env \<Rightarrow> ResourceData \<Rightarrow> ResourceContext \<Rightarrow> lifecycle_result" where
  "pkiDelete e d context =
     (let cl = client context;
          id' = GetId d;
          data = mapAssign [] ''serial_number'' (VString id');
          uri = pkiDeleteURI d;
          fx = [VaultWrite cl uri data]
      in case vaultWrite e cl uri data of
           (secret, Some err) \<Rightarrow> (fx, d, Return (Some (''error writing to Vault: '' @ err)))
         | (None, None) \<Rightarrow> (fx, d, Panic NilDereference)
         | (Some secret, None) \<Rightarrow>
             (fx, SetAttr d ''revocation_time'' (mapIndex (Data secret) ''revocation_time''),
              Return None))"

definition pkiRead :: "ResourceData \<Rightarrow> ResourceContext \<Rightarrow> lifecycle_result" where
  "pkiRead d meta = ([], d, Return None)"

section \<open>Generic secrets\<close>

fun flattenData :: "env \<Rightarrow> (string \<times> goval) list \<Rightarrow> (string \<times> string) list \<Rightarrow> (string \<times> string) list" where
  "flattenData e [] dataMap = dataMap"
| "flattenData e ((k, v) # rest) dataMap =
     flattenData e rest
       (case assertString v of
          Some vs \<Rightarrow> mapAssign dataMap k vs
        | None \<Rightarrow> mapAssign dataMap k (marshal e v))"
  \<comment> \<open>the loop \<open>for k, v := range secret.Data\<close> over the entries still to visit\<close>

definition genericSecretDataSourceRead ::
  "env \<Rightarrow> ResourceData \<Rightarrow> ResourceContext \<Rightarrow> lifecycle_result" where
  "genericSecretDataSourceRead e d context =
     (let cl = client context;
          path = GetString d ''path'';
          fx = [VaultRead cl path]
      in case vaultRead e cl path of
           (secret, Some err) \<Rightarrow>
             (fx, d,
              Return (Some (''Error reading '' @ path @ '' from Vault: '' @ fmt_s (Some err))))
         | (None, None) \<Rightarrow>
             (fx, d, Return (Some (''Error reading '' @ path @ '' from Vault: '' @ fmt_s None)))
         | (Some secret, None) \<Rightarrow>
             (let d1 = SetId d (RequestID secret);
                  d2 = SetAttr d1 ''data_json'' (VString (marshal e (mapValue (Data secret))));
                  dataMap = flattenData e (mapEntries (Data secret)) [];
                  d3 = SetAttr d2 ''data'' (VStringMap dataMap);
                  d4 = SetAttr d3 ''lease_id'' (VString (LeaseID secret));
                  d5 = SetAttr d4 ''lease_duration'' (VInt (LeaseDuration secret));
                  d6 = SetAttr d5 ''lease_start_time''
                         (VString (timeFormat e (now e) ''RFC3339''));
                  d7 = SetAttr d6 ''lease_renewable'' (VBool (Renewable secret))
              in (fx, d7, Return None)))"
  \<comment> \<open>the layout handed to \<open>Format\<close> is the seven-character text \<open>RFC3339\<close>\<close>

section \<open>Concrete environments and inputs\<close>

text \<open>
  The inputs of the specification's scenarios, and environments that answer them, for
  evaluating the functions above.
\<close>

definition zero_Secret :: Secret where
  "zero_Secret =
     \<lparr>RequestID = '''', LeaseID = '''', LeaseDuration = 0, Renewable = False, Data = None,
      Auth = None\<rparr>"
  \<comment> \<open>the zero value of \<open>api.Secret\<close>, which \<open>json.Unmarshal\<close> fills in\<close>

definition scenario_unmarshal :: "string \<Rightarrow> error + Secret" where
  \<open>scenario_unmarshal b =
     (if b = ''{"auth":{"client_token":"tok-xyz"}}'' then
        Inr (zero_Secret\<lparr>Auth := Some \<lparr>ClientToken = ''tok-xyz''\<rparr>\<rparr>)
      else if b = ''{"auth":{}}'' then Inr (zero_Secret\<lparr>Auth := Some \<lparr>ClientToken = ''''\<rparr>\<rparr>)
      else if b = ''{}'' then Inr zero_Secret
      else Inl ''invalid character in JSON document'')\<close>
  \<comment> \<open>what \<open>json.Unmarshal\<close> gives for the three documents the scenarios use\<close>

fun scenario_marshal :: "goval \<Rightarrow> string" where
  \<open>scenario_marshal VNil = ''null''\<close>
| \<open>scenario_marshal (VBool b) = (if b then ''true'' else ''false'')\<close>
| \<open>scenario_marshal (VNumber n) = n\<close>
| \<open>scenario_marshal (VInt i) = fmt_d i\<close>
| \<open>scenario_marshal (VString s) = ''"'' @ s @ ''"''\<close>
| \<open>scenario_marshal v = ''{}''\<close>
  \<comment> \<open>\<open>json.Marshal\<close> on nil, booleans, numbers and strings that need no escape; the
      scenarios hold no other value that reaches it\<close>

definition scenario_env :: env where
  "scenario_env =
     \<lparr>readFile = (\<lambda>f. if f = ''/etc/vault/ca.pem'' then Inr ''-----BEGIN CERTIFICATE-----''
                       else Inl (''open '' @ f @ '': no such file or directory'')),
      validURL = (\<lambda>u. True),
      httpDo = (\<lambda>c q. (None, Some ''dial tcp: connection refused'')),
      unmarshalSecret = scenario_unmarshal,
      marshal = scenario_marshal,
      configureTLS = (\<lambda>t. None),
      newClient = (\<lambda>a. None),
      vaultRead = (\<lambda>c p. (None, Some ''dial tcp: connection refused'')),
      vaultWrite = (\<lambda>c p b. (None, Some ''dial tcp: connection refused'')),
      now = 1488636306000000000,
      timeFormat = (\<lambda>t layout. if layout = time_RFC3339 then ''2017-03-04T14:05:06Z''
                                  else if layout = ''RFC3339'' then ''RFC2229''
                                  else layout)\<rparr>"
  \<comment> \<open>a backend that is down, and a clock that reads 2017-03-04 14:05:06 UTC; Go's
      \<open>Format\<close> reads the layout \<open>RFC3339\<close> as the text \<open>RFC\<close>, three times the
      hour on the twelve-hour clock (the layout element \<open>3\<close>) and the text \<open>9\<close>\<close>

definition login_env :: "http_response option \<times> error option \<Rightarrow> env" where
  "login_env r = scenario_env\<lparr>httpDo := (\<lambda>c q. r)\<rparr>"
  \<comment> \<open>the login endpoint answers \<open>r\<close>\<close>

definition vault_env :: "Secret option \<times> error option \<Rightarrow> Secret option \<times> error option \<Rightarrow> env" where
  "vault_env r w = scenario_env\<lparr>vaultRead := (\<lambda>c p. r), vaultWrite := (\<lambda>c p b. w)\<rparr>"
  \<comment> \<open>Vault answers \<open>r\<close> to a read and \<open>w\<close> to a write\<close>

definition scenario_login :: provider_data where
  "scenario_login =
     \<lparr>address = ''https://vault.test:8200'', token = '''',
      personal_access_token = ''pat123'', github_org = ''acme'',
      namespace_domain = ''acme.io'', ca_cert_file = '''', ca_cert_dir = '''',
      client_auth = [], skip_tls_verify = False, max_lease_ttl_seconds = 1200\<rparr>"

definition scenario_context :: ResourceContext where
  "scenario_context =
     \<lparr>client = \<lparr>Address = ''https://vault.test:8200'', Token = ''tok-xyz''\<rparr>,
      githubOrg = ''acme'', namespaceDomain = ''acme.io''\<rparr>"

definition scenario_approle :: ResourceData where
  "scenario_approle = \<lparr>ident = '''', attrs = [''repository'' \<mapsto> VString ''my-repo'']\<rparr>"

definition scenario_pki :: ResourceData where
  "scenario_pki =
     \<lparr>ident = '''',
      attrs = [''common_name'' \<mapsto> VString ''svc.acme.io'', ''path'' \<mapsto> VString ''pki_int'',
               ''ttl'' \<mapsto> VString ''8760h'']\<rparr>"

definition scenario_secret :: ResourceData where
  "scenario_secret = \<lparr>ident = '''', attrs = [''path'' \<mapsto> VString ''secret/app'']\<rparr>"

section \<open>Properties of the federated login\<close>

text \<open>
  With a complete identity triple, a readable (or no) CA file and a URL that parses,
  \<open>githubLogin\<close> is one POST and a case analysis of its answer. The two lemmas give
  that analysis for the two clients the function can end up with.
\<close>

lemma githubLogin_default_client:
  assumes \<open>personal_access_token d \<noteq> ''''\<close> \<open>github_org d \<noteq> ''''\<close> \<open>namespace_domain d \<noteq> ''''\<close>
    and \<open>ca_cert_file d = ''''\<close> \<open>validURL e (loginURL d)\<close>
  shows \<open>githubLogin e d =
    (let cl = \<lparr>Timeout = time_Second * 10, Transport = None\<rparr>;
         authRequest = \<lparr>Method = ''POST'', URL = loginURL d, ReqBody = loginBody d\<rparr>;
         fx = [HttpDo cl authRequest]
     in case httpDo e cl authRequest of
          (resp, Some err) \<Rightarrow> (fx, Return (Inl err))
        | (None, None) \<Rightarrow> (fx, Return (Inl ''No response from vault during approle auth''))
        | (Some resp, None) \<Rightarrow>
            if StatusCode resp \<noteq> 200 then
              (fx, Return (Inl (''Vault authentication to GitHub Status ''
                                @ fmt_d (StatusCode resp))))
            else
              (case unmarshalSecret e (Body resp) of
                 Inl err \<Rightarrow> (fx, Return (Inl err))
               | Inr payload \<Rightarrow>
                   (case Auth payload of
                      None \<Rightarrow> (fx, Panic NilDereference)
                    | Some auth \<Rightarrow> (fx, Return (Inr (ClientToken auth))))))\<close>
  using assms
  by (simp add: githubLogin_def http_NewRequest_def Let_def
      split: prod.splits option.splits sum.splits)

lemma githubLogin_custom_client:
  assumes \<open>personal_access_token d \<noteq> ''''\<close> \<open>github_org d \<noteq> ''''\<close> \<open>namespace_domain d \<noteq> ''''\<close>
    and \<open>ca_cert_file d \<noteq> ''''\<close> \<open>readFile e (ca_cert_file d) = Inr pem\<close>
    and \<open>validURL e (loginURL d)\<close>
  shows \<open>githubLogin e d =
    (let cl = \<lparr>Timeout = 0, Transport = Some pem\<rparr>;
         authRequest = \<lparr>Method = ''POST'', URL = loginURL d, ReqBody = loginBody d\<rparr>;
         fx = [ReadFile (ca_cert_file d), HttpDo cl authRequest]
     in case httpDo e cl authRequest of
          (resp, Some err) \<Rightarrow> (fx, Return (Inl err))
        | (None, None) \<Rightarrow> (fx, Return (Inl ''No response from vault during approle auth''))
        | (Some resp, None) \<Rightarrow>
            if StatusCode resp \<noteq> 200 then
              (fx, Return (Inl (''Vault authentication to GitHub Status ''
                                @ fmt_d (StatusCode resp))))
            else
              (case unmarshalSecret e (Body resp) of
                 Inl err \<Rightarrow> (fx, Return (Inl err))
               | Inr payload \<Rightarrow>
                   (case Auth payload of
                      None \<Rightarrow> (fx, Panic NilDereference)
                    | Some auth \<Rightarrow> (fx, Return (Inr (ClientToken auth))))))\<close>
  using assms
  by (simp add: githubLogin_def http_NewRequest_def Let_def
      split: prod.splits option.splits sum.splits)

lemma githubLogin_answer:
  assumes \<open>personal_access_token d \<noteq> ''''\<close> \<open>github_org d \<noteq> ''''\<close> \<open>namespace_domain d \<noteq> ''''\<close>
    and \<open>ca_cert_file d = '''' \<or> (\<exists>pem. readFile e (ca_cert_file d) = Inr pem)\<close>
    and \<open>validURL e (loginURL d)\<close>
    and \<open>\<forall>cl. httpDo e cl \<lparr>Method = ''POST'', URL = loginURL d, ReqBody = loginBody d\<rparr> = r\<close>
  shows \<open>snd (githubLogin e d) =
    (case r of
       (resp, Some err) \<Rightarrow> Return (Inl err)
     | (None, None) \<Rightarrow> Return (Inl ''No response from vault during approle auth'')
     | (Some resp, None) \<Rightarrow>
         if StatusCode resp \<noteq> 200 then
           Return (Inl (''Vault authentication to GitHub Status '' @ fmt_d (StatusCode resp)))
         else
           (case unmarshalSecret e (Body resp) of
              Inl err \<Rightarrow> Return (Inl err)
            | Inr payload \<Rightarrow>
                (case Auth payload of
                   None \<Rightarrow> Panic NilDereference
                 | Some auth \<Rightarrow> Return (Inr (ClientToken auth)))))\<close>
proof (cases \<open>ca_cert_file d = ''''\<close>)
  case True
  show ?thesis
    using assms(6)
    by (simp add: githubLogin_default_client [OF assms(1-3) True assms(5)] Let_def
        split: prod.splits option.splits sum.splits)
next
  case False
  with assms(4) obtain pem where pem: \<open>readFile e (ca_cert_file d) = Inr pem\<close>
    by blast
  show ?thesis
    using assms(6)
    by (simp add: githubLogin_custom_client [OF assms(1-3) False pem assms(5)] Let_def
        split: prod.splits option.splits sum.splits)
qed

lemma scenario_login_complete:
  \<open>personal_access_token scenario_login \<noteq> ''''\<close>
  \<open>github_org scenario_login \<noteq> ''''\<close>
  \<open>namespace_domain scenario_login \<noteq> ''''\<close>
  \<open>ca_cert_file scenario_login = ''''\<close>
  \<open>validURL (login_env r) u\<close>
  by (simp_all add: scenario_login_def login_env_def scenario_env_def)

lemma scenario_loginURL:
  \<open>loginURL scenario_login = ''https://vault.test:8200/v1/auth/github/acme.io/acme/login''\<close>
  by (simp add: loginURL_def scenario_login_def)

lemma scenario_loginBody: \<open>loginBody scenario_login = ''{"token":"pat123"}''\<close>
  by (simp add: loginBody_def scenario_login_def)

text \<open>
  C1. With a non-empty personal access token, organization and namespace (and a CA file
  that is unset or readable, and a login URL that \<open>http.NewRequest\<close> accepts), the login
  step makes exactly one HTTP request: a POST to
  \<open>address + "/v1/auth/github/" + namespace + "/" + organization + "/login"\<close> whose body
  is the text \<open>{"token":"\<close> + token + \<open>"}\<close>; the only other effect is reading the CA
  file. When the answer has status 200 and its body decodes to a secret whose
  \<open>auth.client_token\<close> is \<open>T\<close>, the login returns \<open>T\<close>.
\<close>

theorem githubLogin_posts_and_returns_client_token:
  assumes pat: \<open>personal_access_token d \<noteq> ''''\<close>
    and org: \<open>github_org d \<noteq> ''''\<close>
    and ns: \<open>namespace_domain d \<noteq> ''''\<close>
    and ca: \<open>ca_cert_file d = '''' \<or> (\<exists>pem. readFile e (ca_cert_file d) = Inr pem)\<close>
    and url: \<open>validURL e (address d @ ''/v1/auth/github/'' @ namespace_domain d @ ''/''
                             @ github_org d @ ''/login'')\<close>
  shows \<open>\<exists>cl fx.
           set fx \<subseteq> {ReadFile (ca_cert_file d)} \<and>
           fst (githubLogin e d) =
             fx @ [HttpDo cl
                     \<lparr>Method = ''POST'',
                      URL = address d @ ''/v1/auth/github/'' @ namespace_domain d @ ''/''
                            @ github_org d @ ''/login'',
                      ReqBody = ''{"token":"'' @ personal_access_token d @ ''"}''\<rparr>] \<and>
           (\<forall>resp payload auth.
              httpDo e cl
                \<lparr>Method = ''POST'',
                 URL = address d @ ''/v1/auth/github/'' @ namespace_domain d @ ''/''
                       @ github_org d @ ''/login'',
                 ReqBody = ''{"token":"'' @ personal_access_token d @ ''"}''\<rparr>
                = (Some resp, None) \<and>
              StatusCode resp = 200 \<and>
              unmarshalSecret e (Body resp) = Inr payload \<and>
              Auth payload = Some auth \<longrightarrow>
              snd (githubLogin e d) = Return (Inr (ClientToken auth)))\<close>
proof -
  have u: \<open>address d @ ''/v1/auth/github/'' @ namespace_domain d @ ''/'' @ github_org d
             @ ''/login'' = loginURL d\<close>
    by (simp add: loginURL_def)
  have b: \<open>''{"token":"'' @ personal_access_token d @ ''"}'' = loginBody d\<close>
    by (simp add: loginBody_def)
  from url have url': \<open>validURL e (loginURL d)\<close>
    by (simp only: u)
  show ?thesis
    unfolding u b
  proof (cases \<open>ca_cert_file d = ''''\<close>)
    case True
    note run = githubLogin_default_client [OF pat org ns True url']
    show \<open>\<exists>cl fx.
            set fx \<subseteq> {ReadFile (ca_cert_file d)} \<and>
            fst (githubLogin e d) =
              fx @ [HttpDo cl \<lparr>Method = ''POST'', URL = loginURL d, ReqBody = loginBody d\<rparr>] \<and>
            (\<forall>resp payload auth.
               httpDo e cl \<lparr>Method = ''POST'', URL = loginURL d, ReqBody = loginBody d\<rparr>
                 = (Some resp, None) \<and>
               StatusCode resp = 200 \<and>
               unmarshalSecret e (Body resp) = Inr payload \<and>
               Auth payload = Some auth \<longrightarrow>
               snd (githubLogin e d) = Return (Inr (ClientToken auth)))\<close>
      apply (rule exI [of _ \<open>\<lparr>Timeout = time_Second * 10, Transport = None\<rparr>\<close>])
      apply (rule exI [of _ \<open>[]\<close>])
      by (auto simp: run Let_def split: prod.splits option.splits sum.splits)
  next
    case False
    with ca obtain pem where pem: \<open>readFile e (ca_cert_file d) = Inr pem\<close>
      by blast
    note run = githubLogin_custom_client [OF pat org ns False pem url']
    show \<open>\<exists>cl fx.
            set fx \<subseteq> {ReadFile (ca_cert_file d)} \<and>
            fst (githubLogin e d) =
              fx @ [HttpDo cl \<lparr>Method = ''POST'', URL = loginURL d, ReqBody = loginBody d\<rparr>] \<and>
            (\<forall>resp payload auth.
               httpDo e cl \<lparr>Method = ''POST'', URL = loginURL d, ReqBody = loginBody d\<rparr>
                 = (Some resp, None) \<and>
               StatusCode resp = 200 \<and>
               unmarshalSecret e (Body resp) = Inr payload \<and>
               Auth payload = Some auth \<longrightarrow>
               snd (githubLogin e d) = Return (Inr (ClientToken auth)))\<close>
      apply (rule exI [of _ \<open>\<lparr>Timeout = 0, Transport = Some pem\<rparr>\<close>])
      apply (rule exI [of _ \<open>[ReadFile (ca_cert_file d)]\<close>])
      by (auto simp: run Let_def split: prod.splits option.splits sum.splits)
  qed
qed

text \<open>
  The specification's scenario: the POST goes to
  \<open>https://vault.test:8200/v1/auth/github/acme.io/acme/login\<close> with the body
  \<open>{"token":"pat123"}\<close>, and the answer \<open>{"auth":{"client_token":"tok-xyz"}}\<close>
  gives the token \<open>tok-xyz\<close>.
\<close>

theorem githubLogin_scenario:
  \<open>githubLogin
     (login_env (Some \<lparr>StatusCode = 200, Body = ''{"auth":{"client_token":"tok-xyz"}}''\<rparr>, None))
     scenario_login =
   ([HttpDo \<lparr>Timeout = 10000000000, Transport = None\<rparr>
       \<lparr>Method = ''POST'',
        URL = ''https://vault.test:8200/v1/auth/github/acme.io/acme/login'',
        ReqBody = ''{"token":"pat123"}''\<rparr>],
    Return (Inr ''tok-xyz''))\<close>
proof -
  let ?e = \<open>login_env (Some \<lparr>StatusCode = 200, Body = ''{"auth":{"client_token":"tok-xyz"}}''\<rparr>,
                        None)\<close>
  have url: \<open>validURL ?e (address scenario_login @ ''/v1/auth/github/''
                @ namespace_domain scenario_login @ ''/'' @ github_org scenario_login
                @ ''/login'')\<close>
    by (rule scenario_login_complete)
  have ca: \<open>ca_cert_file scenario_login = '''' \<or>
            (\<exists>pem. readFile ?e (ca_cert_file scenario_login) = Inr pem)\<close>
    by (simp add: scenario_login_complete)
  from githubLogin_posts_and_returns_client_token
         [OF scenario_login_complete(1-3) ca url]
  obtain cl where
    \<open>\<forall>resp payload auth.
       httpDo ?e cl
         \<lparr>Method = ''POST'',
          URL = address scenario_login @ ''/v1/auth/github/''
                @ namespace_domain scenario_login @ ''/'' @ github_org scenario_login
                @ ''/login'',
          ReqBody = ''{"token":"'' @ personal_access_token scenario_login @ ''"}''\<rparr>
         = (Some resp, None) \<and>
       StatusCode resp = 200 \<and>
       unmarshalSecret ?e (Body resp) = Inr payload \<and>
       Auth payload = Some auth \<longrightarrow>
       snd (githubLogin ?e scenario_login) = Return (Inr (ClientToken auth))\<close>
    by blast
  then have token: \<open>snd (githubLogin ?e scenario_login) = Return (Inr ''tok-xyz'')\<close>
    by (simp add: login_env_def scenario_env_def scenario_unmarshal_def zero_Secret_def)
  have \<open>fst (githubLogin ?e scenario_login) =
          [HttpDo \<lparr>Timeout = time_Second * 10, Transport = None\<rparr>
             \<lparr>Method = ''POST'', URL = loginURL scenario_login,
              ReqBody = loginBody scenario_login\<rparr>]\<close>
    by (simp add: githubLogin_default_client [OF scenario_login_complete] Let_def
        split: prod.splits option.splits sum.splits)
  then have \<open>fst (githubLogin ?e scenario_login) =
          [HttpDo \<lparr>Timeout = 10000000000, Transport = None\<rparr>
             \<lparr>Method = ''POST'',
              URL = ''https://vault.test:8200/v1/auth/github/acme.io/acme/login'',
              ReqBody = ''{"token":"pat123"}''\<rparr>]\<close>
    by (simp only: scenario_loginURL scenario_loginBody time_Second_def) simp
  with token show ?thesis
    by (simp add: prod_eq_iff)
qed

text \<open>
  C2. What the login returns for each answer of the endpoint. A transport error, a
  missing response, a status other than 200 and a body that does not decode are returned
  as errors (the status is part of the message). A 200 answer whose body decodes to a
  secret with no \<open>auth\<close> object makes \<open>payload.Auth.ClientToken\<close> dereference a nil
  pointer, and one whose \<open>auth\<close> object has no \<open>client_token\<close> makes the login
  return the empty token with a nil error.
\<close>

theorem githubLogin_failure_outcomes:
  assumes pat: \<open>personal_access_token d \<noteq> ''''\<close>
    and org: \<open>github_org d \<noteq> ''''\<close>
    and ns: \<open>namespace_domain d \<noteq> ''''\<close>
    and ca: \<open>ca_cert_file d = '''' \<or> (\<exists>pem. readFile e (ca_cert_file d) = Inr pem)\<close>
    and url: \<open>validURL e (loginURL d)\<close>
    and ans: \<open>\<forall>cl. httpDo e cl \<lparr>Method = ''POST'', URL = loginURL d, ReqBody = loginBody d\<rparr> = r\<close>
  shows \<open>(\<forall>resp err. r = (resp, Some err) \<longrightarrow> snd (githubLogin e d) = Return (Inl err)) \<and>
         (r = (None, None) \<longrightarrow>
            snd (githubLogin e d) = Return (Inl ''No response from vault during approle auth'')) \<and>
         (\<forall>resp. r = (Some resp, None) \<and> StatusCode resp \<noteq> 200 \<longrightarrow>
            snd (githubLogin e d) =
              Return (Inl (''Vault authentication to GitHub Status '' @ fmt_d (StatusCode resp)))) \<and>
         (\<forall>resp err.
            r = (Some resp, None) \<and> StatusCode resp = 200 \<and>
            unmarshalSecret e (Body resp) = Inl err \<longrightarrow>
            snd (githubLogin e d) = Return (Inl err)) \<and>
         (\<forall>resp payload.
            r = (Some resp, None) \<and> StatusCode resp = 200 \<and>
            unmarshalSecret e (Body resp) = Inr payload \<and> Auth payload = None \<longrightarrow>
            snd (githubLogin e d) = Panic NilDereference) \<and>
         (\<forall>resp payload auth.
            r = (Some resp, None) \<and> StatusCode resp = 200 \<and>
            unmarshalSecret e (Body resp) = Inr payload \<and> Auth payload = Some auth \<and>
            ClientToken auth = '''' \<longrightarrow>
            snd (githubLogin e d) = Return (Inr ''''))\<close>
  unfolding githubLogin_answer [OF pat org ns ca url ans]
  by (auto split: option.splits)

text \<open>
  The answers \<open>{}\<close> and \<open>{"auth":{}}\<close> with status 200, and the answer with status
  403, in the scenario's configuration.
\<close>

theorem githubLogin_failure_outcomes_scenario:
  \<open>snd (githubLogin (login_env (Some \<lparr>StatusCode = 200, Body = ''{}''\<rparr>, None)) scenario_login)
     = Panic NilDereference \<and>
   snd (githubLogin (login_env (Some \<lparr>StatusCode = 200, Body = ''{"auth":{}}''\<rparr>, None))
          scenario_login)
     = Return (Inr '''') \<and>
   snd (githubLogin (login_env (Some \<lparr>StatusCode = 403, Body = ''''\<rparr>, None)) scenario_login)
     = Return (Inl ''Vault authentication to GitHub Status 403'')\<close>
proof -
  have ca: \<open>ca_cert_file scenario_login = '''' \<or>
            (\<exists>pem. readFile (login_env r) (ca_cert_file scenario_login) = Inr pem)\<close> for r
    by (simp add: scenario_login_complete)
  have ans: \<open>\<forall>cl. httpDo (login_env r) cl
               \<lparr>Method = ''POST'', URL = loginURL scenario_login,
                ReqBody = loginBody scenario_login\<rparr> = r\<close> for r
    by (simp add: login_env_def scenario_env_def)
  note outcomes =
    githubLogin_failure_outcomes
      [OF scenario_login_complete(1-3) ca scenario_login_complete(5) ans]
  have un: \<open>unmarshalSecret (login_env r) = scenario_unmarshal\<close> for r
    by (simp add: login_env_def scenario_env_def)
  have \<open>snd (githubLogin (login_env (Some \<lparr>StatusCode = 200, Body = ''{}''\<rparr>, None))
               scenario_login) = Panic NilDereference\<close>
    using outcomes [of \<open>(Some \<lparr>StatusCode = 200, Body = ''{}''\<rparr>, None)\<close>]
    by (simp add: un scenario_unmarshal_def zero_Secret_def)
  moreover
  have \<open>snd (githubLogin (login_env (Some \<lparr>StatusCode = 200, Body = ''{"auth":{}}''\<rparr>, None))
               scenario_login) = Return (Inr '''')\<close>
    using outcomes [of \<open>(Some \<lparr>StatusCode = 200, Body = ''{"auth":{}}''\<rparr>, None)\<close>]
    by (simp add: un scenario_unmarshal_def zero_Secret_def)
  moreover
  have \<open>fmt_d 403 = ''403''\<close>
    by code_simp
  then have \<open>snd (githubLogin (login_env (Some \<lparr>StatusCode = 403, Body = ''''\<rparr>, None))
               scenario_login) = Return (Inl ''Vault authentication to GitHub Status 403'')\<close>
    using outcomes [of \<open>(Some \<lparr>StatusCode = 403, Body = ''''\<rparr>, None)\<close>]
    by simp
  ultimately show ?thesis
    by simp
qed

text \<open>
  C4. The client that makes the login request. Without \<open>ca_cert_file\<close> it is the
  client built with \<open>Timeout: time.Second * 10\<close>. With a readable \<open>ca_cert_file\<close> it is
  the client built afterwards with only a \<open>Transport\<close>: its \<open>Timeout\<close> is zero, which
  for \<open>http.Client\<close> means no timeout.
\<close>

theorem githubLogin_client_timeout:
  assumes pat: \<open>personal_access_token d \<noteq> ''''\<close>
    and org: \<open>github_org d \<noteq> ''''\<close>
    and ns: \<open>namespace_domain d \<noteq> ''''\<close>
    and url: \<open>validURL e (loginURL d)\<close>
  shows \<open>(ca_cert_file d = '''' \<longrightarrow>
            fst (githubLogin e d) =
              [HttpDo \<lparr>Timeout = time_Second * 10, Transport = None\<rparr>
                 \<lparr>Method = ''POST'', URL = loginURL d, ReqBody = loginBody d\<rparr>]) \<and>
         (\<forall>pem. ca_cert_file d \<noteq> '''' \<and> readFile e (ca_cert_file d) = Inr pem \<longrightarrow>
            fst (githubLogin e d) =
              [ReadFile (ca_cert_file d),
               HttpDo \<lparr>Timeout = 0, Transport = Some pem\<rparr>
                 \<lparr>Method = ''POST'', URL = loginURL d, ReqBody = loginBody d\<rparr>])\<close>
proof (intro conjI allI impI)
  assume ca: \<open>ca_cert_file d = ''''\<close>
  show \<open>fst (githubLogin e d) =
          [HttpDo \<lparr>Timeout = time_Second * 10, Transport = None\<rparr>
             \<lparr>Method = ''POST'', URL = loginURL d, ReqBody = loginBody d\<rparr>]\<close>
    by (simp add: githubLogin_default_client [OF pat org ns ca url] Let_def
        split: prod.splits option.splits sum.splits)
next
  fix pem
  assume \<open>ca_cert_file d \<noteq> '''' \<and> readFile e (ca_cert_file d) = Inr pem\<close>
  then have ca: \<open>ca_cert_file d \<noteq> ''''\<close> and pem: \<open>readFile e (ca_cert_file d) = Inr pem\<close>
    by simp_all
  show \<open>fst (githubLogin e d) =
          [ReadFile (ca_cert_file d),
           HttpDo \<lparr>Timeout = 0, Transport = Some pem\<rparr>
             \<lparr>Method = ''POST'', URL = loginURL d, ReqBody = loginBody d\<rparr>]\<close>
    by (simp add: githubLogin_custom_client [OF pat org ns ca pem url] Let_def
        split: prod.splits option.splits sum.splits)
qed

text \<open>
  The scenario's configuration with \<open>ca_cert_file\<close> set to a readable file: the request
  is made with \<open>Timeout = 0\<close>.
\<close>

theorem githubLogin_client_timeout_scenario:
  \<open>fst (githubLogin scenario_env (scenario_login\<lparr>ca_cert_file := ''/etc/vault/ca.pem''\<rparr>)) =
     [ReadFile ''/etc/vault/ca.pem'',
      HttpDo \<lparr>Timeout = 0, Transport = Some ''-----BEGIN CERTIFICATE-----''\<rparr>
        \<lparr>Method = ''POST'',
         URL = ''https://vault.test:8200/v1/auth/github/acme.io/acme/login'',
         ReqBody = ''{"token":"pat123"}''\<rparr>]\<close>
proof -
  let ?d = \<open>scenario_login\<lparr>ca_cert_file := ''/etc/vault/ca.pem''\<rparr>\<close>
  have d: \<open>personal_access_token ?d \<noteq> ''''\<close> \<open>github_org ?d \<noteq> ''''\<close>
    \<open>namespace_domain ?d \<noteq> ''''\<close> \<open>validURL scenario_env (loginURL ?d)\<close>
    by (simp_all add: scenario_login_def scenario_env_def)
  have ca: \<open>ca_cert_file ?d \<noteq> ''''\<close>
    by simp
  have pem: \<open>readFile scenario_env (ca_cert_file ?d) = Inr ''-----BEGIN CERTIFICATE-----''\<close>
    by (simp add: scenario_env_def)
  have q: \<open>loginURL ?d = ''https://vault.test:8200/v1/auth/github/acme.io/acme/login''\<close>
    \<open>loginBody ?d = ''{"token":"pat123"}''\<close>
    by (simp_all add: loginURL_def loginBody_def scenario_login_def)
  from githubLogin_client_timeout [OF d] ca pem
  have \<open>fst (githubLogin scenario_env ?d) =
          [ReadFile (ca_cert_file ?d),
           HttpDo \<lparr>Timeout = 0, Transport = Some ''-----BEGIN CERTIFICATE-----''\<rparr>
             \<lparr>Method = ''POST'', URL = loginURL ?d, ReqBody = loginBody ?d\<rparr>]\<close>
    by blast
  then show ?thesis
    by (simp only: q) simp
qed

section \<open>Properties of Configure\<close>

text \<open>
  C3. Once the transport is configured (at most one \<open>client_auth\<close> block, and
  \<open>ConfigureTLS\<close> and \<open>NewClient\<close> succeed), Configure with a personal access
  token makes exactly the calls of the federated login and takes the login's result,
  whatever the static token is: a non-empty login token becomes the session token, a
  login error or panic is Configure's, and an empty login token gives
  \<open>No authentication token was supplied!\<close>. With a complete identity triple (and a CA
  file that is unset or readable, and a URL that parses) the login's POST is among
  Configure's calls. Without a personal access token Configure makes no call; it uses
  the static token, and fails with the same error when that is empty.
\<close>

theorem providerConfigure_login_precedence:
  assumes one: \<open>length (client_auth d) \<le> 1\<close>
    and tls: \<open>configureTLS e (providerTLSConfig d) = None\<close>
    and new: \<open>newClient e (address d) = None\<close>
  shows \<open>(personal_access_token d \<noteq> '''' \<longrightarrow>
            fst (providerConfigure e d) = fst (githubLogin e d) \<and>
            (\<forall>t. snd (githubLogin e d) = Return (Inr t) \<and> t \<noteq> '''' \<longrightarrow>
               snd (providerConfigure e d) =
                 Return (Inr \<lparr>client = \<lparr>Address = address d, Token = t\<rparr>,
                             githubOrg = github_org d,
                             namespaceDomain = namespace_domain d\<rparr>)) \<and>
            (snd (githubLogin e d) = Return (Inr '''') \<longrightarrow>
               snd (providerConfigure e d) =
                 Return (Inl ''No authentication token was supplied!'')) \<and>
            (\<forall>err. snd (githubLogin e d) = Return (Inl err) \<longrightarrow>
               snd (providerConfigure e d) = Return (Inl err)) \<and>
            (\<forall>p. snd (githubLogin e d) = Panic p \<longrightarrow>
               snd (providerConfigure e d) = Panic p)) \<and>
         (personal_access_token d \<noteq> '''' \<and> github_org d \<noteq> '''' \<and>
          namespace_domain d \<noteq> '''' \<and>
          (ca_cert_file d = '''' \<or> (\<exists>pem. readFile e (ca_cert_file d) = Inr pem)) \<and>
          validURL e (loginURL d) \<longrightarrow>
            (\<exists>cl. HttpDo cl \<lparr>Method = ''POST'', URL = loginURL d, ReqBody = loginBody d\<rparr>
                    \<in> set (fst (providerConfigure e d)))) \<and>
         (personal_access_token d = '''' \<longrightarrow>
            providerConfigure e d =
              (if token d = '''' then
                 ([], Return (Inl ''No authentication token was supplied!''))
               else
                 ([], Return (Inr \<lparr>client = \<lparr>Address = address d, Token = token d\<rparr>,
                                   githubOrg = github_org d,
                                   namespaceDomain = namespace_domain d\<rparr>))))\<close>
proof -
  from one have few: \<open>\<not> 1 < length (client_auth d)\<close>
    by simp
  have run: \<open>providerConfigure e d =
      (case (if personal_access_token d \<noteq> '''' then githubLogin e d
             else ([], Return (Inr (token d)))) of
         (fx, Panic p) \<Rightarrow> (fx, Panic p)
       | (fx, Return (Inl err)) \<Rightarrow> (fx, Return (Inl err))
       | (fx, Return (Inr tok)) \<Rightarrow>
           if tok = '''' then (fx, Return (Inl ''No authentication token was supplied!''))
           else (fx, Return (Inr \<lparr>client = \<lparr>Address = address d, Token = tok\<rparr>,
                                   githubOrg = github_org d,
                                   namespaceDomain = namespace_domain d\<rparr>)))\<close>
    using few tls new by (simp add: providerConfigure_def)
  have static: \<open>personal_access_token d = '''' \<longrightarrow>
      providerConfigure e d =
        (if token d = '''' then ([], Return (Inl ''No authentication token was supplied!''))
         else ([], Return (Inr \<lparr>client = \<lparr>Address = address d, Token = token d\<rparr>,
                                 githubOrg = github_org d,
                                 namespaceDomain = namespace_domain d\<rparr>)))\<close>
    by (simp add: run)
  have login: \<open>personal_access_token d \<noteq> '''' \<longrightarrow>
      fst (providerConfigure e d) = fst (githubLogin e d) \<and>
      (\<forall>t. snd (githubLogin e d) = Return (Inr t) \<and> t \<noteq> '''' \<longrightarrow>
         snd (providerConfigure e d) =
           Return (Inr \<lparr>client = \<lparr>Address = address d, Token = t\<rparr>,
                       githubOrg = github_org d,
                       namespaceDomain = namespace_domain d\<rparr>)) \<and>
      (snd (githubLogin e d) = Return (Inr '''') \<longrightarrow>
         snd (providerConfigure e d) = Return (Inl ''No authentication token was supplied!'')) \<and>
      (\<forall>err. snd (githubLogin e d) = Return (Inl err) \<longrightarrow>
         snd (providerConfigure e d) = Return (Inl err)) \<and>
      (\<forall>p. snd (githubLogin e d) = Panic p \<longrightarrow> snd (providerConfigure e d) = Panic p)\<close>
    by (cases \<open>githubLogin e d\<close>) (auto simp: run split: outcome.splits sum.splits)
  have post: \<open>\<exists>cl. HttpDo cl \<lparr>Method = ''POST'', URL = loginURL d, ReqBody = loginBody d\<rparr>
                  \<in> set (fst (providerConfigure e d))\<close>
    if pat: \<open>personal_access_token d \<noteq> ''''\<close> and org: \<open>github_org d \<noteq> ''''\<close>
      and ns: \<open>namespace_domain d \<noteq> ''''\<close>
      and ca: \<open>ca_cert_file d = '''' \<or> (\<exists>pem. readFile e (ca_cert_file d) = Inr pem)\<close>
      and url: \<open>validURL e (loginURL d)\<close>
  proof -
    from login pat have same: \<open>fst (providerConfigure e d) = fst (githubLogin e d)\<close>
      by blast
    show ?thesis
    proof (cases \<open>ca_cert_file d = ''''\<close>)
      case True
      show ?thesis
        unfolding same
        by (rule exI [of _ \<open>\<lparr>Timeout = time_Second * 10, Transport = None\<rparr>\<close>])
          (simp add: githubLogin_default_client [OF pat org ns True url] Let_def
            split: prod.splits option.splits sum.splits)
    next
      case False
      with ca obtain pem where pem: \<open>readFile e (ca_cert_file d) = Inr pem\<close>
        by blast
      show ?thesis
        unfolding same
        by (rule exI [of _ \<open>\<lparr>Timeout = 0, Transport = Some pem\<rparr>\<close>])
          (simp add: githubLogin_custom_client [OF pat org ns False pem url] Let_def
            split: prod.splits option.splits sum.splits)
    qed
  qed
  from static login post show ?thesis
    by blast
qed

text \<open>
  The scenario's configuration with the static token \<open>static-tok\<close> added: the session
  token is the login's \<open>tok-xyz\<close>. With neither token, Configure fails.
\<close>

theorem providerConfigure_scenario:
  \<open>providerConfigure
     (login_env (Some \<lparr>StatusCode = 200, Body = ''{"auth":{"client_token":"tok-xyz"}}''\<rparr>, None))
     (scenario_login\<lparr>token := ''static-tok''\<rparr>) =
   ([HttpDo \<lparr>Timeout = 10000000000, Transport = None\<rparr>
       \<lparr>Method = ''POST'',
        URL = ''https://vault.test:8200/v1/auth/github/acme.io/acme/login'',
        ReqBody = ''{"token":"pat123"}''\<rparr>],
    Return (Inr \<lparr>client = \<lparr>Address = ''https://vault.test:8200'', Token = ''tok-xyz''\<rparr>,
                githubOrg = ''acme'', namespaceDomain = ''acme.io''\<rparr>)) \<and>
   providerConfigure scenario_env (scenario_login\<lparr>personal_access_token := ''''\<rparr>) =
   ([], Return (Inl ''No authentication token was supplied!''))\<close>
proof -
  let ?e = \<open>login_env (Some \<lparr>StatusCode = 200, Body = ''{"auth":{"client_token":"tok-xyz"}}''\<rparr>,
                        None)\<close>
  let ?d = \<open>scenario_login\<lparr>token := ''static-tok''\<rparr>\<close>
  let ?d' = \<open>scenario_login\<lparr>personal_access_token := ''''\<rparr>\<close>
  have d: \<open>personal_access_token ?d \<noteq> ''''\<close> \<open>github_org ?d \<noteq> ''''\<close>
    \<open>namespace_domain ?d \<noteq> ''''\<close> \<open>ca_cert_file ?d = ''''\<close> \<open>validURL ?e (loginURL ?d)\<close>
    by (simp_all add: scenario_login_def login_env_def scenario_env_def)
  have q: \<open>loginURL ?d = ''https://vault.test:8200/v1/auth/github/acme.io/acme/login''\<close>
    \<open>loginBody ?d = ''{"token":"pat123"}''\<close>
    by (simp_all add: loginURL_def loginBody_def scenario_login_def)
  have login: \<open>githubLogin ?e ?d =
      ([HttpDo \<lparr>Timeout = 10000000000, Transport = None\<rparr>
          \<lparr>Method = ''POST'',
           URL = ''https://vault.test:8200/v1/auth/github/acme.io/acme/login'',
           ReqBody = ''{"token":"pat123"}''\<rparr>],
       Return (Inr ''tok-xyz''))\<close>
    unfolding githubLogin_default_client [OF d] q
    by (simp add: login_env_def scenario_env_def scenario_unmarshal_def zero_Secret_def
        time_Second_def)
  have \<open>length (client_auth ?d) \<le> 1\<close> \<open>configureTLS ?e (providerTLSConfig ?d) = None\<close>
    \<open>newClient ?e (address ?d) = None\<close>
    by (simp_all add: scenario_login_def login_env_def scenario_env_def)
  from providerConfigure_login_precedence [OF this] d(1) login
  have \<open>fst (providerConfigure ?e ?d) = fst (githubLogin ?e ?d)\<close>
    and \<open>snd (providerConfigure ?e ?d) =
          Return (Inr \<lparr>client = \<lparr>Address = address ?d, Token = ''tok-xyz''\<rparr>,
                      githubOrg = github_org ?d, namespaceDomain = namespace_domain ?d\<rparr>)\<close>
    by simp_all
  then have \<open>providerConfigure ?e ?d =
      (fst (githubLogin ?e ?d),
       Return (Inr \<lparr>client = \<lparr>Address = address ?d, Token = ''tok-xyz''\<rparr>,
                   githubOrg = github_org ?d, namespaceDomain = namespace_domain ?d\<rparr>))\<close>
    by (simp add: prod_eq_iff)
  then have first: \<open>providerConfigure ?e ?d =
      ([HttpDo \<lparr>Timeout = 10000000000, Transport = None\<rparr>
          \<lparr>Method = ''POST'',
           URL = ''https://vault.test:8200/v1/auth/github/acme.io/acme/login'',
           ReqBody = ''{"token":"pat123"}''\<rparr>],
       Return (Inr \<lparr>client = \<lparr>Address = ''https://vault.test:8200'', Token = ''tok-xyz''\<rparr>,
                   githubOrg = ''acme'', namespaceDomain = ''acme.io''\<rparr>))\<close>
    unfolding login by (simp add: scenario_login_def)
  have \<open>length (client_auth ?d') \<le> 1\<close>
    \<open>configureTLS scenario_env (providerTLSConfig ?d') = None\<close>
    \<open>newClient scenario_env (address ?d') = None\<close>
    by (simp_all add: scenario_login_def scenario_env_def)
  from providerConfigure_login_precedence [OF this]
  have \<open>providerConfigure scenario_env ?d' =
          ([], Return (Inl ''No authentication token was supplied!''))\<close>
    by (simp add: scenario_login_def)
  with first show ?thesis
    by simp
qed

section \<open>Properties of the generic-secret reader\<close>

lemma mapAssign_fresh: \<open>k \<notin> fst ` set m \<Longrightarrow> mapAssign m k v = m @ [(k, v)]\<close>
  unfolding mapAssign_def by (induction m) auto

text \<open>
  Over a map's entries (each key once), the loop appends one flattened entry for each
  entry it visits, in the order of the visit.
\<close>

lemma flattenData_distinct:
  assumes \<open>distinct (map fst D)\<close> \<open>fst ` set acc \<inter> fst ` set D = {}\<close>
  shows \<open>flattenData e D acc =
           acc @ map (\<lambda>(k, v). (k, case v of VString s \<Rightarrow> s | _ \<Rightarrow> marshal e v)) D\<close>
  using assms
proof (induction D arbitrary: acc)
  case Nil
  then show ?case
    by simp
next
  case (Cons kv D)
  obtain k v where kv: \<open>kv = (k, v)\<close>
    by (cases kv)
  from Cons.prems kv have fresh: \<open>k \<notin> fst ` set acc\<close>
    by auto
  let ?s = \<open>case v of VString s \<Rightarrow> s | _ \<Rightarrow> marshal e v\<close>
  have step: \<open>(case assertString v of Some vs \<Rightarrow> mapAssign acc k vs
                | None \<Rightarrow> mapAssign acc k (marshal e v)) = acc @ [(k, ?s)]\<close>
    by (cases v) (simp_all add: assertString_def mapAssign_fresh [OF fresh])
  from Cons.prems kv have \<open>distinct (map fst D)\<close>
    and \<open>fst ` set (acc @ [(k, ?s)]) \<inter> fst ` set D = {}\<close>
    by auto
  from Cons.IH [OF this] show ?case
    by (simp add: kv step)
qed

lemma genericSecretDataSourceRead_success:
  assumes \<open>vaultRead e (client context) (GetString d ''path'') = (Some secret, None)\<close>
  shows \<open>genericSecretDataSourceRead e d context =
    ([VaultRead (client context) (GetString d ''path'')],
     \<lparr>ident = RequestID secret,
      attrs = (attrs d)
        (''data_json'' \<mapsto> VString (marshal e (mapValue (Data secret))),
         ''data'' \<mapsto> VStringMap (flattenData e (mapEntries (Data secret)) []),
         ''lease_id'' \<mapsto> VString (LeaseID secret),
         ''lease_duration'' \<mapsto> VInt (LeaseDuration secret),
         ''lease_start_time'' \<mapsto> VString (timeFormat e (now e) ''RFC3339''),
         ''lease_renewable'' \<mapsto> VBool (Renewable secret))\<rparr>,
     Return None)\<close>
  using assms by (simp add: genericSecretDataSourceRead_def Let_def SetAttr_def SetId_def)

text \<open>
  C6. After a successful Read of a secret whose data map has the entries \<open>D\<close>, the
  attribute \<open>data\<close> is a string map \<open>m\<close> with exactly the keys of \<open>D\<close>, each once;
  the entry of a key whose value in \<open>D\<close> is a string is that string, and the entry of
  a key with any other value \<open>v\<close> is \<open>json.Marshal\<close> of \<open>v\<close>. When every value of
  \<open>D\<close> is a string, \<open>m\<close> is the same mapping as \<open>D\<close>.
\<close>

theorem genericSecret_flattened_map:
  assumes rd: \<open>vaultRead e (client context) (GetString d ''path'') = (Some secret, None)\<close>
    and D: \<open>mapEntries (Data secret) = D\<close>
    and keys: \<open>distinct (map fst D)\<close>
  shows \<open>\<exists>m. attrs (fst (snd (genericSecretDataSourceRead e d context))) ''data''
                = Some (VStringMap m) \<and>
              distinct (map fst m) \<and>
              fst ` set m = fst ` set D \<and>
              (\<forall>k s. (k, VString s) \<in> set D \<longrightarrow> map_of m k = Some s) \<and>
              (\<forall>k v. (k, v) \<in> set D \<and> (\<forall>s. v \<noteq> VString s) \<longrightarrow>
                 map_of m k = Some (marshal e v)) \<and>
              ((\<forall>k v. (k, v) \<in> set D \<longrightarrow> (\<exists>s. v = VString s)) \<longrightarrow>
                 (\<forall>k. map_option VString (map_of m k) = map_of D k))\<close>
proof -
  let ?f = \<open>\<lambda>(k, v). (k, case v of VString s \<Rightarrow> s | _ \<Rightarrow> marshal e v)\<close>
  let ?m = \<open>map ?f D\<close>
  have flat: \<open>flattenData e D [] = ?m\<close>
    using flattenData_distinct [OF keys, of \<open>[]\<close> e] by simp
  have fsts: \<open>map fst ?m = map fst D\<close>
    by (induction D) auto
  have stored: \<open>attrs (fst (snd (genericSecretDataSourceRead e d context))) ''data''
                  = Some (VStringMap ?m)\<close>
    by (simp add: genericSecretDataSourceRead_success [OF rd] D flat)
  have dist: \<open>distinct (map fst ?m)\<close>
    using keys by (simp only: fsts)
  have dom: \<open>fst ` set ?m = fst ` set D\<close>
    using arg_cong [OF fsts, of set] by (simp only: set_map)
  have entry: \<open>map_of ?m k = Some (case v of VString s \<Rightarrow> s | _ \<Rightarrow> marshal e v)\<close>
    if \<open>(k, v) \<in> set D\<close> for k v
  proof -
    from that have \<open>?f (k, v) \<in> ?f ` set D\<close>
      by (rule imageI)
    then have \<open>(k, case v of VString s \<Rightarrow> s | _ \<Rightarrow> marshal e v) \<in> set ?m\<close>
      by (simp only: set_map prod.case)
    then show ?thesis
      using dist by simp
  qed
  have strings: \<open>map_of ?m k = Some s\<close> if \<open>(k, VString s) \<in> set D\<close> for k s
    using entry [OF that] by simp
  have others: \<open>map_of ?m k = Some (marshal e v)\<close>
    if \<open>(k, v) \<in> set D \<and> (\<forall>s. v \<noteq> VString s)\<close> for k v
    using entry [of k v] that by (cases v) simp_all
  have verbatim: \<open>map_option VString (map_of ?m k) = map_of D k\<close>
    if all: \<open>\<forall>k v. (k, v) \<in> set D \<longrightarrow> (\<exists>s. v = VString s)\<close> for k
  proof (cases \<open>map_of D k\<close>)
    case None
    then have \<open>k \<notin> fst ` set ?m\<close>
      by (simp only: dom map_of_eq_None_iff) simp
    then have \<open>map_of ?m k = None\<close>
      by (simp only: map_of_eq_None_iff) simp
    with None show ?thesis
      by simp
  next
    case (Some v)
    then have mem: \<open>(k, v) \<in> set D\<close>
      by (rule map_of_SomeD)
    with all obtain s where \<open>v = VString s\<close>
      by blast
    with entry [OF mem] Some show ?thesis
      by simp
  qed
  show ?thesis
    by (rule exI [of _ ?m])
      (intro conjI allI impI;
       (rule stored dist dom | (rule strings others verbatim, assumption)))
qed

text \<open>
  A secret with a string, a number and a boolean: the string is copied, the other two
  are encoded.
\<close>

theorem genericSecret_flattened_map_scenario:
  \<open>attrs (fst (snd (genericSecretDataSourceRead
      (vault_env
         (Some (zero_Secret\<lparr>Data := Some [(''user'', VString ''admin''),
                                           (''port'', VNumber ''8200''),
                                           (''tls'', VBool True)]\<rparr>), None)
         (None, None))
      scenario_secret scenario_context))) ''data''
   = Some (VStringMap [(''user'', ''admin''), (''port'', ''8200''), (''tls'', ''true'')])\<close>
proof -
  let ?D = \<open>[(''user'', VString ''admin''), (''port'', VNumber ''8200''), (''tls'', VBool True)]\<close>
  let ?s = \<open>zero_Secret\<lparr>Data := Some ?D\<rparr>\<close>
  let ?e = \<open>vault_env (Some ?s, None) (None, None)\<close>
  have rd: \<open>vaultRead ?e (client scenario_context) (GetString scenario_secret ''path'')
              = (Some ?s, None)\<close>
    by (simp add: vault_env_def scenario_env_def)
  have D: \<open>mapEntries (Data ?s) = ?D\<close>
    by (simp add: mapEntries_def zero_Secret_def)
  have keys: \<open>distinct (map fst ?D)\<close>
    by simp
  from genericSecret_flattened_map [OF rd D keys]
  obtain m where m: \<open>attrs (fst (snd (genericSecretDataSourceRead ?e scenario_secret
                        scenario_context))) ''data'' = Some (VStringMap m)\<close>
    by blast
  have \<open>attrs (fst (snd (genericSecretDataSourceRead ?e scenario_secret scenario_context)))
          ''data''
        = Some (VStringMap [(''user'', ''admin''), (''port'', ''8200''), (''tls'', ''true'')])\<close>
    unfolding genericSecretDataSourceRead_success [OF rd]
    by (simp add: mapEntries_def zero_Secret_def assertString_def mapAssign_def vault_env_def
        scenario_env_def)
  then show ?thesis
    using m by simp
qed

text \<open>
  C9. After a successful Read the lease attributes are copied from the secret, and
  \<open>lease_start_time\<close> is \<open>time.Now().Format("RFC3339")\<close>: the layout is the text
  \<open>RFC3339\<close>, which is not the layout \<open>time.RFC3339\<close>.
\<close>

theorem genericSecret_lease_attributes:
  assumes rd: \<open>vaultRead e (client context) (GetString d ''path'') = (Some secret, None)\<close>
  shows \<open>attrs (fst (snd (genericSecretDataSourceRead e d context))) ''lease_start_time''
           = Some (VString (timeFormat e (now e) ''RFC3339'')) \<and>
         ''RFC3339'' \<noteq> time_RFC3339 \<and>
         attrs (fst (snd (genericSecretDataSourceRead e d context))) ''lease_id''
           = Some (VString (LeaseID secret)) \<and>
         attrs (fst (snd (genericSecretDataSourceRead e d context))) ''lease_duration''
           = Some (VInt (LeaseDuration secret)) \<and>
         attrs (fst (snd (genericSecretDataSourceRead e d context))) ''lease_renewable''
           = Some (VBool (Renewable secret))\<close>
  by (simp add: genericSecretDataSourceRead_success [OF rd] time_RFC3339_def)

text \<open>
  A read at 2017-03-04 14:05:06 UTC: \<open>lease_start_time\<close> is \<open>RFC2229\<close>, where the
  layout \<open>time.RFC3339\<close> gives \<open>2017-03-04T14:05:06Z\<close>.
\<close>

theorem genericSecret_lease_attributes_scenario:
  \<open>attrs (fst (snd (genericSecretDataSourceRead
      (vault_env (Some (zero_Secret\<lparr>LeaseID := ''secret/app/1'', LeaseDuration := 3600\<rparr>), None)
         (None, None))
      scenario_secret scenario_context))) ''lease_start_time''
   = Some (VString ''RFC2229'') \<and>
   timeFormat scenario_env (now scenario_env) time_RFC3339 = ''2017-03-04T14:05:06Z''\<close>
proof -
  let ?s = \<open>zero_Secret\<lparr>LeaseID := ''secret/app/1'', LeaseDuration := 3600\<rparr>\<close>
  let ?e = \<open>vault_env (Some ?s, None) (None, None)\<close>
  have rd: \<open>vaultRead ?e (client scenario_context) (GetString scenario_secret ''path'')
              = (Some ?s, None)\<close>
    by (simp add: vault_env_def scenario_env_def)
  have \<open>timeFormat ?e (now ?e) ''RFC3339'' = ''RFC2229''\<close>
    by (simp add: vault_env_def scenario_env_def time_RFC3339_def)
  moreover have \<open>timeFormat scenario_env (now scenario_env) time_RFC3339 = ''2017-03-04T14:05:06Z''\<close>
    by (simp add: scenario_env_def)
  ultimately show ?thesis
    using genericSecret_lease_attributes [OF rd] by simp
qed

section \<open>Properties of the AppRole and certificate resources\<close>

lemma mapIndex_absent: \<open>\<not> mapHas m k \<Longrightarrow> mapIndex m k = VNil\<close>
  by (simp add: mapHas_def mapIndex_def split: option.splits)

lemma mapIndex_string_present: \<open>mapIndex m k = VString s \<Longrightarrow> mapHas m k\<close>
  by (auto simp: mapHas_def mapIndex_def split: option.splits)

lemma assertString_VString [simp]: \<open>assertString (VString s) = Some s\<close>
  by (simp add: assertString_def)

lemma assertString_eq_None: \<open>assertString v = None \<longleftrightarrow> (\<forall>s. v \<noteq> VString s)\<close>
  by (cases v) (simp_all add: assertString_def)

text \<open>The outcomes of \<open>approleWrite\<close>, by what the two backend calls return.\<close>

lemma approleWrite_read_failed:
  assumes \<open>vaultRead e (client context) (approlePath d context @ ''/role-id'') = (sr, err)\<close>
    and \<open>err = None \<Longrightarrow> sr = None\<close>
  shows \<open>approleWrite e d context =
           ([VaultRead (client context) (approlePath d context @ ''/role-id'')], d,
            Return (Some (''Error reading RoleID from Vault: '' @ fmt_s err)))\<close>
  using assms by (cases err; cases sr) (simp_all add: approleWrite_def Let_def)

lemma approleWrite_no_role_id:
  assumes \<open>vaultRead e (client context) (approlePath d context @ ''/role-id'')
             = (Some secretRole, None)\<close>
    and \<open>\<not> mapHas (Data secretRole) ''role_id''\<close>
  shows \<open>approleWrite e d context =
           ([VaultRead (client context) (approlePath d context @ ''/role-id'')], d,
            Return (Some ''RoleID not found''))\<close>
  using assms by (simp add: approleWrite_def Let_def)

lemma approleWrite_role_id_no_string:
  assumes \<open>vaultRead e (client context) (approlePath d context @ ''/role-id'')
             = (Some secretRole, None)\<close>
    and \<open>mapHas (Data secretRole) ''role_id''\<close>
    and \<open>\<forall>s. mapIndex (Data secretRole) ''role_id'' \<noteq> VString s\<close>
  shows \<open>approleWrite e d context =
           ([VaultRead (client context) (approlePath d context @ ''/role-id'')], d,
            Panic TypeAssertion)\<close>
  using assms assertString_eq_None [of \<open>mapIndex (Data secretRole) ''role_id''\<close>]
  by (simp add: approleWrite_def Let_def)

lemma approleWrite_write_failed:
  assumes \<open>vaultRead e (client context) (approlePath d context @ ''/role-id'')
             = (Some secretRole, None)\<close>
    and \<open>mapIndex (Data secretRole) ''role_id'' = VString roleID\<close>
    and \<open>vaultWrite e (client context) (approlePath d context @ ''/secret-id'') [] = (s, err)\<close>
    and \<open>err = None \<Longrightarrow> s = None\<close>
  shows \<open>approleWrite e d context =
           ([VaultRead (client context) (approlePath d context @ ''/role-id''),
             VaultWrite (client context) (approlePath d context @ ''/secret-id'') []], d,
            Return (Some (''Error generating SecretID from Vault: '' @ fmt_s err)))\<close>
  using assms mapIndex_string_present [OF assms(2)]
  by (cases err; cases s) (simp_all add: approleWrite_def Let_def)

lemma approleWrite_no_secret_id:
  assumes \<open>vaultRead e (client context) (approlePath d context @ ''/role-id'')
             = (Some secretRole, None)\<close>
    and \<open>mapIndex (Data secretRole) ''role_id'' = VString roleID\<close>
    and \<open>vaultWrite e (client context) (approlePath d context @ ''/secret-id'') []
           = (Some secret, None)\<close>
    and \<open>\<not> mapHas (Data secret) ''secret_id''\<close>
  shows \<open>approleWrite e d context =
           ([VaultRead (client context) (approlePath d context @ ''/role-id''),
             VaultWrite (client context) (approlePath d context @ ''/secret-id'') []], d,
            Return (Some ''secretID not found''))\<close>
  using assms mapIndex_string_present [OF assms(2)]
  by (simp add: approleWrite_def Let_def)

lemma approleWrite_secret_id_no_string:
  assumes \<open>vaultRead e (client context) (approlePath d context @ ''/role-id'')
             = (Some secretRole, None)\<close>
    and \<open>mapIndex (Data secretRole) ''role_id'' = VString roleID\<close>
    and \<open>vaultWrite e (client context) (approlePath d context @ ''/secret-id'') []
           = (Some secret, None)\<close>
    and \<open>mapHas (Data secret) ''secret_id''\<close>
    and \<open>\<forall>s. mapIndex (Data secret) ''secret_id'' \<noteq> VString s\<close>
  shows \<open>approleWrite e d context =
           ([VaultRead (client context) (approlePath d context @ ''/role-id''),
             VaultWrite (client context) (approlePath d context @ ''/secret-id'') []], d,
            Panic TypeAssertion)\<close>
  using assms mapIndex_string_present [OF assms(2)]
    assertString_eq_None [of \<open>mapIndex (Data secret) ''secret_id''\<close>]
  by (simp add: approleWrite_def Let_def)

lemma approleWrite_success:
  assumes \<open>vaultRead e (client context) (approlePath d context @ ''/role-id'')
             = (Some secretRole, None)\<close>
    and \<open>mapIndex (Data secretRole) ''role_id'' = VString roleID\<close>
    and \<open>vaultWrite e (client context) (approlePath d context @ ''/secret-id'') []
           = (Some secret, None)\<close>
    and \<open>mapIndex (Data secret) ''secret_id'' = VString secretID\<close>
  shows \<open>approleWrite e d context =
           ([VaultRead (client context) (approlePath d context @ ''/role-id''),
             VaultWrite (client context) (approlePath d context @ ''/secret-id'') []],
            \<lparr>ident = approlePath d context,
             attrs = (attrs d)
               (''role_id'' \<mapsto> VString roleID,
                ''secret_id'' \<mapsto> VString secretID,
                ''auth_path'' \<mapsto>
                  VString (Address (client context) @ ''/v1/auth/approle/''
                           @ namespaceDomain context @ ''/'' @ githubOrg context
                           @ ''/login''))\<rparr>,
            Return None)\<close>
  using assms mapIndex_string_present [OF assms(2)] mapIndex_string_present [OF assms(4)]
  by (simp add: approleWrite_def Let_def SetAttr_def SetId_def)

text \<open>
  Every run of \<open>approleWrite\<close> is one of eight: the read failed, the secret has no
  \<open>role_id\<close>, the \<open>role_id\<close> is no string, the write failed, the answer has no
  \<open>secret_id\<close>, the \<open>secret_id\<close> is no string, or both values were found.
\<close>

lemma approleWrite_outcomes:
  obtains (read_failed) sr err where
      \<open>vaultRead e (client context) (approlePath d context @ ''/role-id'') = (sr, err)\<close>
      \<open>err = None \<Longrightarrow> sr = None\<close>
  | (no_role_id) secretRole where
      \<open>vaultRead e (client context) (approlePath d context @ ''/role-id'')
         = (Some secretRole, None)\<close>
      \<open>\<not> mapHas (Data secretRole) ''role_id''\<close>
  | (role_id_no_string) secretRole where
      \<open>vaultRead e (client context) (approlePath d context @ ''/role-id'')
         = (Some secretRole, None)\<close>
      \<open>mapHas (Data secretRole) ''role_id''\<close>
      \<open>\<forall>s. mapIndex (Data secretRole) ''role_id'' \<noteq> VString s\<close>
  | (write_failed) secretRole roleID s err where
      \<open>vaultRead e (client context) (approlePath d context @ ''/role-id'')
         = (Some secretRole, None)\<close>
      \<open>mapIndex (Data secretRole) ''role_id'' = VString roleID\<close>
      \<open>vaultWrite e (client context) (approlePath d context @ ''/secret-id'') [] = (s, err)\<close>
      \<open>err = None \<Longrightarrow> s = None\<close>
  | (no_secret_id) secretRole roleID secret where
      \<open>vaultRead e (client context) (approlePath d context @ ''/role-id'')
         = (Some secretRole, None)\<close>
      \<open>mapIndex (Data secretRole) ''role_id'' = VString roleID\<close>
      \<open>vaultWrite e (client context) (approlePath d context @ ''/secret-id'') []
         = (Some secret, None)\<close>
      \<open>\<not> mapHas (Data secret) ''secret_id''\<close>
  | (secret_id_no_string) secretRole roleID secret where
      \<open>vaultRead e (client context) (approlePath d context @ ''/role-id'')
         = (Some secretRole, None)\<close>
      \<open>mapIndex (Data secretRole) ''role_id'' = VString roleID\<close>
      \<open>vaultWrite e (client context) (approlePath d context @ ''/secret-id'') []
         = (Some secret, None)\<close>
      \<open>mapHas (Data secret) ''secret_id''\<close>
      \<open>\<forall>s. mapIndex (Data secret) ''secret_id'' \<noteq> VString s\<close>
  | (success) secretRole roleID secret secretID where
      \<open>vaultRead e (client context) (approlePath d context @ ''/role-id'')
         = (Some secretRole, None)\<close>
      \<open>mapIndex (Data secretRole) ''role_id'' = VString roleID\<close>
      \<open>vaultWrite e (client context) (approlePath d context @ ''/secret-id'') []
         = (Some secret, None)\<close>
      \<open>mapIndex (Data secret) ''secret_id'' = VString secretID\<close>
proof -
  obtain sr err where rd:
    \<open>vaultRead e (client context) (approlePath d context @ ''/role-id'') = (sr, err)\<close>
    by (cases \<open>vaultRead e (client context) (approlePath d context @ ''/role-id'')\<close>)
  obtain s err' where wr:
    \<open>vaultWrite e (client context) (approlePath d context @ ''/secret-id'') [] = (s, err')\<close>
    by (cases \<open>vaultWrite e (client context) (approlePath d context @ ''/secret-id'') []\<close>)
  show thesis
  proof (cases \<open>err = None \<and> sr \<noteq> None\<close>)
    case False
    show thesis
    proof (rule read_failed [OF rd])
      assume \<open>err = None\<close>
      with False show \<open>sr = None\<close>
        by simp
    qed
  next
    case True
    then obtain secretRole where sr: \<open>sr = Some secretRole\<close> \<open>err = None\<close>
      by blast
    note rd' = rd [unfolded sr]
    show thesis
    proof (cases \<open>mapHas (Data secretRole) ''role_id''\<close>)
      case False
      then show thesis
        using no_role_id [OF rd'] by blast
    next
      case has: True
      show thesis
      proof (cases \<open>\<exists>roleID. mapIndex (Data secretRole) ''role_id'' = VString roleID\<close>)
        case False
        then show thesis
          using role_id_no_string [OF rd' has] by blast
      next
        case True
        then obtain roleID where role: \<open>mapIndex (Data secretRole) ''role_id'' = VString roleID\<close>
          by blast
        show thesis
        proof (cases \<open>err' = None \<and> s \<noteq> None\<close>)
          case False
          show thesis
          proof (rule write_failed [OF rd' role wr])
            assume \<open>err' = None\<close>
            with False show \<open>s = None\<close>
              by simp
          qed
        next
          case True
          then obtain secret where s: \<open>s = Some secret\<close> \<open>err' = None\<close>
            by blast
          note wr' = wr [unfolded s]
          show thesis
          proof (cases \<open>mapHas (Data secret) ''secret_id''\<close>)
            case False
            then show thesis
              using no_secret_id [OF rd' role wr'] by blast
          next
            case has': True
            show thesis
            proof (cases \<open>\<exists>secretID. mapIndex (Data secret) ''secret_id'' = VString secretID\<close>)
              case False
              then show thesis
                using secret_id_no_string [OF rd' role wr' has'] by blast
            next
              case True
              then show thesis
                using success [OF rd' role wr'] by blast
            qed
          qed
        qed
      qed
    qed
  qed
qed

text \<open>
  C5. When the role-id read fails, returns no object or returns no \<open>role_id\<close>, or
  when the secret-id generation that follows fails, returns no object or returns no
  \<open>secret_id\<close>, Create returns an error and leaves the bag as it was. Whenever Create
  does not return nil (an error, or a panic on a value that is no string) the bag is
  unchanged; when it returns nil, both calls returned an object, both values were found,
  and the identity and the three attributes are set from them.
\<close>

theorem approleWrite_no_partial_state:
  \<open>(\<forall>sr err.
      vaultRead e (client context) (approlePath d context @ ''/role-id'') = (sr, err) \<and>
      (sr = None \<or> err \<noteq> None) \<longrightarrow>
      (\<exists>msg. approleWrite e d context =
         ([VaultRead (client context) (approlePath d context @ ''/role-id'')], d,
          Return (Some msg)))) \<and>
   (\<forall>secretRole.
      vaultRead e (client context) (approlePath d context @ ''/role-id'')
        = (Some secretRole, None) \<and>
      \<not> mapHas (Data secretRole) ''role_id'' \<longrightarrow>
      approleWrite e d context =
        ([VaultRead (client context) (approlePath d context @ ''/role-id'')], d,
         Return (Some ''RoleID not found''))) \<and>
   (\<forall>secretRole roleID s err.
      vaultRead e (client context) (approlePath d context @ ''/role-id'')
        = (Some secretRole, None) \<and>
      mapIndex (Data secretRole) ''role_id'' = VString roleID \<and>
      vaultWrite e (client context) (approlePath d context @ ''/secret-id'') [] = (s, err) \<and>
      (s = None \<or> err \<noteq> None) \<longrightarrow>
      (\<exists>msg. approleWrite e d context =
         ([VaultRead (client context) (approlePath d context @ ''/role-id''),
           VaultWrite (client context) (approlePath d context @ ''/secret-id'') []], d,
          Return (Some msg)))) \<and>
   (\<forall>secretRole roleID secret.
      vaultRead e (client context) (approlePath d context @ ''/role-id'')
        = (Some secretRole, None) \<and>
      mapIndex (Data secretRole) ''role_id'' = VString roleID \<and>
      vaultWrite e (client context) (approlePath d context @ ''/secret-id'') []
        = (Some secret, None) \<and>
      \<not> mapHas (Data secret) ''secret_id'' \<longrightarrow>
      approleWrite e d context =
        ([VaultRead (client context) (approlePath d context @ ''/role-id''),
          VaultWrite (client context) (approlePath d context @ ''/secret-id'') []], d,
         Return (Some ''secretID not found''))) \<and>
   (snd (snd (approleWrite e d context)) \<noteq> Return None \<longrightarrow>
      fst (snd (approleWrite e d context)) = d) \<and>
   (snd (snd (approleWrite e d context)) = Return None \<longrightarrow>
      (\<exists>secretRole roleID secret secretID.
         vaultRead e (client context) (approlePath d context @ ''/role-id'')
           = (Some secretRole, None) \<and>
         mapIndex (Data secretRole) ''role_id'' = VString roleID \<and>
         vaultWrite e (client context) (approlePath d context @ ''/secret-id'') []
           = (Some secret, None) \<and>
         mapIndex (Data secret) ''secret_id'' = VString secretID \<and>
         fst (snd (approleWrite e d context)) =
           \<lparr>ident = approlePath d context,
            attrs = (attrs d)
              (''role_id'' \<mapsto> VString roleID,
               ''secret_id'' \<mapsto> VString secretID,
               ''auth_path'' \<mapsto>
                 VString (Address (client context) @ ''/v1/auth/approle/''
                          @ namespaceDomain context @ ''/'' @ githubOrg context
                          @ ''/login''))\<rparr>))\<close>
proof (intro conjI allI impI)
  fix sr err
  assume \<open>vaultRead e (client context) (approlePath d context @ ''/role-id'') = (sr, err) \<and>
          (sr = None \<or> err \<noteq> None)\<close>
  then have rd: \<open>vaultRead e (client context) (approlePath d context @ ''/role-id'') = (sr, err)\<close>
    and \<open>err = None \<Longrightarrow> sr = None\<close>
    by auto
  from approleWrite_read_failed [OF this]
  show \<open>\<exists>msg. approleWrite e d context =
          ([VaultRead (client context) (approlePath d context @ ''/role-id'')], d,
           Return (Some msg))\<close>
    by blast
next
  fix secretRole
  assume \<open>vaultRead e (client context) (approlePath d context @ ''/role-id'')
            = (Some secretRole, None) \<and>
          \<not> mapHas (Data secretRole) ''role_id''\<close>
  then show \<open>approleWrite e d context =
          ([VaultRead (client context) (approlePath d context @ ''/role-id'')], d,
           Return (Some ''RoleID not found''))\<close>
    by (simp add: approleWrite_no_role_id)
next
  fix secretRole roleID s err
  assume \<open>vaultRead e (client context) (approlePath d context @ ''/role-id'')
            = (Some secretRole, None) \<and>
          mapIndex (Data secretRole) ''role_id'' = VString roleID \<and>
          vaultWrite e (client context) (approlePath d context @ ''/secret-id'') [] = (s, err) \<and>
          (s = None \<or> err \<noteq> None)\<close>
  then have \<open>vaultRead e (client context) (approlePath d context @ ''/role-id'')
               = (Some secretRole, None)\<close>
    and \<open>mapIndex (Data secretRole) ''role_id'' = VString roleID\<close>
    and \<open>vaultWrite e (client context) (approlePath d context @ ''/secret-id'') [] = (s, err)\<close>
    and \<open>err = None \<Longrightarrow> s = None\<close>
    by auto
  from approleWrite_write_failed [OF this]
  show \<open>\<exists>msg. approleWrite e d context =
          ([VaultRead (client context) (approlePath d context @ ''/role-id''),
            VaultWrite (client context) (approlePath d context @ ''/secret-id'') []], d,
           Return (Some msg))\<close>
    by blast
next
  fix secretRole roleID secret
  assume \<open>vaultRead e (client context) (approlePath d context @ ''/role-id'')
            = (Some secretRole, None) \<and>
          mapIndex (Data secretRole) ''role_id'' = VString roleID \<and>
          vaultWrite e (client context) (approlePath d context @ ''/secret-id'') []
            = (Some secret, None) \<and>
          \<not> mapHas (Data secret) ''secret_id''\<close>
  then show \<open>approleWrite e d context =
          ([VaultRead (client context) (approlePath d context @ ''/role-id''),
            VaultWrite (client context) (approlePath d context @ ''/secret-id'') []], d,
           Return (Some ''secretID not found''))\<close>
    by (simp add: approleWrite_no_secret_id)
next
  assume \<open>snd (snd (approleWrite e d context)) \<noteq> Return None\<close>
  then show \<open>fst (snd (approleWrite e d context)) = d\<close>
    by (cases rule: approleWrite_outcomes [of e \<open>context\<close> d])
      (simp_all add: approleWrite_read_failed approleWrite_no_role_id
        approleWrite_role_id_no_string approleWrite_write_failed approleWrite_no_secret_id
        approleWrite_secret_id_no_string approleWrite_success)
next
  assume nil: \<open>snd (snd (approleWrite e d context)) = Return None\<close>
  show \<open>\<exists>secretRole roleID secret secretID.
          vaultRead e (client context) (approlePath d context @ ''/role-id'')
            = (Some secretRole, None) \<and>
          mapIndex (Data secretRole) ''role_id'' = VString roleID \<and>
          vaultWrite e (client context) (approlePath d context @ ''/secret-id'') []
            = (Some secret, None) \<and>
          mapIndex (Data secret) ''secret_id'' = VString secretID \<and>
          fst (snd (approleWrite e d context)) =
            \<lparr>ident = approlePath d context,
             attrs = (attrs d)
               (''role_id'' \<mapsto> VString roleID,
                ''secret_id'' \<mapsto> VString secretID,
                ''auth_path'' \<mapsto>
                  VString (Address (client context) @ ''/v1/auth/approle/''
                           @ namespaceDomain context @ ''/'' @ githubOrg context
                           @ ''/login''))\<rparr>\<close>
  proof (cases rule: approleWrite_outcomes [of e \<open>context\<close> d])
    case (success secretRole roleID secret secretID)
    from approleWrite_success [OF this] success show ?thesis
      by auto
  qed (use nil in \<open>simp_all add: approleWrite_read_failed approleWrite_no_role_id
        approleWrite_role_id_no_string approleWrite_write_failed approleWrite_no_secret_id
        approleWrite_secret_id_no_string\<close>)
qed

text \<open>
  The role-id is read and the secret-id generation is refused: Create returns the error
  and the bag holds no \<open>role_id\<close>, no \<open>secret_id\<close> and no identity.
\<close>

theorem approleWrite_no_partial_state_scenario:
  \<open>approleWrite
     (vault_env (Some (zero_Secret\<lparr>Data := Some [(''role_id'', VString ''role-1'')]\<rparr>), None)
        (None, Some ''permission denied''))
     scenario_approle scenario_context =
   ([VaultRead \<lparr>Address = ''https://vault.test:8200'', Token = ''tok-xyz''\<rparr>
       ''auth/approle/acme.io/acme/role/my-repo/role-id'',
     VaultWrite \<lparr>Address = ''https://vault.test:8200'', Token = ''tok-xyz''\<rparr>
       ''auth/approle/acme.io/acme/role/my-repo/secret-id'' []],
    scenario_approle,
    Return (Some ''Error generating SecretID from Vault: permission denied''))\<close>
proof -
  let ?sr = \<open>zero_Secret\<lparr>Data := Some [(''role_id'', VString ''role-1'')]\<rparr>\<close>
  let ?e = \<open>vault_env (Some ?sr, None) (None, Some ''permission denied'')\<close>
  have path: \<open>approlePath scenario_approle scenario_context
                = ''auth/approle/acme.io/acme/role/my-repo''\<close>
    by (simp add: approlePath_def scenario_approle_def scenario_context_def GetString_def)
  have cl: \<open>client scenario_context
              = \<lparr>Address = ''https://vault.test:8200'', Token = ''tok-xyz''\<rparr>\<close>
    by (simp add: scenario_context_def)
  have \<open>vaultRead ?e (client scenario_context)
          (approlePath scenario_approle scenario_context @ ''/role-id'') = (Some ?sr, None) \<and>
        mapIndex (Data ?sr) ''role_id'' = VString ''role-1'' \<and>
        vaultWrite ?e (client scenario_context)
          (approlePath scenario_approle scenario_context @ ''/secret-id'') []
          = (None, Some ''permission denied'') \<and>
        (None = (None :: Secret option) \<or> Some ''permission denied'' \<noteq> None)\<close>
    by (simp add: vault_env_def scenario_env_def mapIndex_def zero_Secret_def)
  with approleWrite_no_partial_state [of ?e scenario_context scenario_approle]
  obtain msg where run: \<open>approleWrite ?e scenario_approle scenario_context =
      ([VaultRead (client scenario_context)
          (approlePath scenario_approle scenario_context @ ''/role-id''),
        VaultWrite (client scenario_context)
          (approlePath scenario_approle scenario_context @ ''/secret-id'') []],
       scenario_approle, Return (Some msg))\<close>
    by blast
  have \<open>snd (snd (approleWrite ?e scenario_approle scenario_context)) =
          Return (Some ''Error generating SecretID from Vault: permission denied'')\<close>
    by (simp add: approleWrite_def Let_def vault_env_def scenario_env_def mapHas_def
        mapIndex_def zero_Secret_def)
  with run have \<open>msg = ''Error generating SecretID from Vault: permission denied''\<close>
    by simp
  with run show ?thesis
    by (simp only: path cl) simp
qed

text \<open>
  C10. When the issuing write returns no Go error, \<open>pkiWrite\<close> uses the response
  unchecked: a nil secret, a secret without \<open>serial_number\<close> and a \<open>serial_number\<close>
  that is no string each make it panic, with the bag unchanged. \<open>approleWrite\<close>
  returns an error for a nil secret and for a missing field, on its read and on its
  write.
\<close>

theorem pkiWrite_unchecked_response:
  assumes wr: \<open>vaultWrite e (client context) (pkiWriteURI d context) (pkiWriteData d) = (s, None)\<close>
  shows \<open>(s = None \<longrightarrow>
            pkiWrite e d context =
              ([VaultWrite (client context) (pkiWriteURI d context) (pkiWriteData d)], d,
               Panic NilDereference)) \<and>
         (\<forall>secret. s = Some secret \<and> \<not> mapHas (Data secret) ''serial_number'' \<longrightarrow>
            pkiWrite e d context =
              ([VaultWrite (client context) (pkiWriteURI d context) (pkiWriteData d)], d,
               Panic TypeAssertion)) \<and>
         (\<forall>secret.
            s = Some secret \<and> (\<forall>x. mapIndex (Data secret) ''serial_number'' \<noteq> VString x) \<longrightarrow>
            pkiWrite e d context =
              ([VaultWrite (client context) (pkiWriteURI d context) (pkiWriteData d)], d,
               Panic TypeAssertion)) \<and>
         (\<forall>a. vaultRead e (client context) (approlePath a context @ ''/role-id'') = (None, None)
            \<longrightarrow> (\<exists>msg. snd (snd (approleWrite e a context)) = Return (Some msg))) \<and>
         (\<forall>a secretRole.
            vaultRead e (client context) (approlePath a context @ ''/role-id'')
              = (Some secretRole, None) \<and>
            \<not> mapHas (Data secretRole) ''role_id'' \<longrightarrow>
            snd (snd (approleWrite e a context)) = Return (Some ''RoleID not found'')) \<and>
         (\<forall>a secretRole roleID.
            vaultRead e (client context) (approlePath a context @ ''/role-id'')
              = (Some secretRole, None) \<and>
            mapIndex (Data secretRole) ''role_id'' = VString roleID \<and>
            vaultWrite e (client context) (approlePath a context @ ''/secret-id'') []
              = (None, None) \<longrightarrow>
            (\<exists>msg. snd (snd (approleWrite e a context)) = Return (Some msg))) \<and>
         (\<forall>a secretRole roleID secret.
            vaultRead e (client context) (approlePath a context @ ''/role-id'')
              = (Some secretRole, None) \<and>
            mapIndex (Data secretRole) ''role_id'' = VString roleID \<and>
            vaultWrite e (client context) (approlePath a context @ ''/secret-id'') []
              = (Some secret, None) \<and>
            \<not> mapHas (Data secret) ''secret_id'' \<longrightarrow>
            snd (snd (approleWrite e a context)) = Return (Some ''secretID not found''))\<close>
proof (intro conjI allI impI)
  assume \<open>s = None\<close>
  with wr show \<open>pkiWrite e d context =
      ([VaultWrite (client context) (pkiWriteURI d context) (pkiWriteData d)], d,
       Panic NilDereference)\<close>
    by (simp add: pkiWrite_def Let_def)
next
  fix secret
  assume \<open>s = Some secret \<and> \<not> mapHas (Data secret) ''serial_number''\<close>
  with wr mapIndex_absent [of \<open>Data secret\<close> \<open>''serial_number''\<close>]
  show \<open>pkiWrite e d context =
      ([VaultWrite (client context) (pkiWriteURI d context) (pkiWriteData d)], d,
       Panic TypeAssertion)\<close>
    by (simp add: pkiWrite_def Let_def assertString_def)
next
  fix secret
  assume \<open>s = Some secret \<and> (\<forall>x. mapIndex (Data secret) ''serial_number'' \<noteq> VString x)\<close>
  with wr assertString_eq_None [of \<open>mapIndex (Data secret) ''serial_number''\<close>]
  show \<open>pkiWrite e d context =
      ([VaultWrite (client context) (pkiWriteURI d context) (pkiWriteData d)], d,
       Panic TypeAssertion)\<close>
    by (simp add: pkiWrite_def Let_def)
next
  fix a
  assume \<open>vaultRead e (client context) (approlePath a context @ ''/role-id'') = (None, None)\<close>
  from approleWrite_read_failed [OF this]
  show \<open>\<exists>msg. snd (snd (approleWrite e a context)) = Return (Some msg)\<close>
    by simp
next
  fix a secretRole
  assume \<open>vaultRead e (client context) (approlePath a context @ ''/role-id'')
            = (Some secretRole, None) \<and>
          \<not> mapHas (Data secretRole) ''role_id''\<close>
  then show \<open>snd (snd (approleWrite e a context)) = Return (Some ''RoleID not found'')\<close>
    by (simp add: approleWrite_no_role_id)
next
  fix a secretRole roleID
  assume \<open>vaultRead e (client context) (approlePath a context @ ''/role-id'')
            = (Some secretRole, None) \<and>
          mapIndex (Data secretRole) ''role_id'' = VString roleID \<and>
          vaultWrite e (client context) (approlePath a context @ ''/secret-id'') []
            = (None, None)\<close>
  then have \<open>vaultRead e (client context) (approlePath a context @ ''/role-id'')
               = (Some secretRole, None)\<close>
    and \<open>mapIndex (Data secretRole) ''role_id'' = VString roleID\<close>
    and \<open>vaultWrite e (client context) (approlePath a context @ ''/secret-id'') []
           = (None, None)\<close>
    by simp_all
  from approleWrite_write_failed [OF this]
  show \<open>\<exists>msg. snd (snd (approleWrite e a context)) = Return (Some msg)\<close>
    by simp
next
  fix a secretRole roleID secret
  assume \<open>vaultRead e (client context) (approlePath a context @ ''/role-id'')
            = (Some secretRole, None) \<and>
          mapIndex (Data secretRole) ''role_id'' = VString roleID \<and>
          vaultWrite e (client context) (approlePath a context @ ''/secret-id'') []
            = (Some secret, None) \<and>
          \<not> mapHas (Data secret) ''secret_id''\<close>
  then show \<open>snd (snd (approleWrite e a context)) = Return (Some ''secretID not found'')\<close>
    by (simp add: approleWrite_no_secret_id)
qed

text \<open>
  The specification's certificate scenario (\<open>common_name = svc.acme.io\<close>,
  \<open>path = pki_int\<close>, \<open>ttl = 8760h\<close>) against a backend that answers the write with
  no secret and no error, and the AppRole scenario against a backend that answers the
  read so: the first panics, the second returns an error.
\<close>

theorem pkiWrite_unchecked_response_scenario:
  \<open>pkiWrite (vault_env (None, None) (None, None)) scenario_pki scenario_context =
     ([VaultWrite \<lparr>Address = ''https://vault.test:8200'', Token = ''tok-xyz''\<rparr>
         ''pki_int/issue/acme''
         [(''common_name'', VString ''svc.acme.io''), (''ttl'', VString ''8760h'')]],
      scenario_pki, Panic NilDereference) \<and>
   snd (snd (pkiWrite (vault_env (None, None) (Some zero_Secret, None)) scenario_pki
               scenario_context))
     = Panic TypeAssertion \<and>
   snd (snd (approleWrite (vault_env (None, None) (None, None)) scenario_approle
               scenario_context))
     = Return (Some ''Error reading RoleID from Vault: %!s(<nil>)'')\<close>
proof -
  let ?e = \<open>vault_env (None, None) (None, None)\<close>
  let ?e' = \<open>vault_env (None, None) (Some zero_Secret, None)\<close>
  have uri: \<open>pkiWriteURI scenario_pki scenario_context = ''pki_int/issue/acme''\<close>
    by (simp add: pkiWriteURI_def scenario_pki_def scenario_context_def GetString_def)
  have data: \<open>pkiWriteData scenario_pki =
                [(''common_name'', VString ''svc.acme.io''), (''ttl'', VString ''8760h'')]\<close>
    by (simp add: pkiWriteData_def scenario_pki_def GetString_def mapAssign_def Let_def)
  have cl: \<open>client scenario_context
              = \<lparr>Address = ''https://vault.test:8200'', Token = ''tok-xyz''\<rparr>\<close>
    by (simp add: scenario_context_def)
  have \<open>vaultWrite ?e (client scenario_context) (pkiWriteURI scenario_pki scenario_context)
          (pkiWriteData scenario_pki) = (None, None)\<close>
    by (simp add: vault_env_def scenario_env_def)
  from pkiWrite_unchecked_response [OF this]
  have \<open>pkiWrite ?e scenario_pki scenario_context =
          ([VaultWrite (client scenario_context) (pkiWriteURI scenario_pki scenario_context)
              (pkiWriteData scenario_pki)],
           scenario_pki, Panic NilDereference)\<close>
    by blast
  then have nil: \<open>pkiWrite ?e scenario_pki scenario_context =
     ([VaultWrite \<lparr>Address = ''https://vault.test:8200'', Token = ''tok-xyz''\<rparr>
         ''pki_int/issue/acme''
         [(''common_name'', VString ''svc.acme.io''), (''ttl'', VString ''8760h'')]],
      scenario_pki, Panic NilDereference)\<close>
    by (simp only: uri data cl)
  have wr': \<open>vaultWrite ?e' (client scenario_context)
               (pkiWriteURI scenario_pki scenario_context) (pkiWriteData scenario_pki)
             = (Some zero_Secret, None)\<close>
    by (simp add: vault_env_def scenario_env_def)
  have \<open>\<not> mapHas (Data zero_Secret) ''serial_number''\<close>
    by (simp add: mapHas_def zero_Secret_def)
  with pkiWrite_unchecked_response [OF wr']
  have absent: \<open>snd (snd (pkiWrite ?e' scenario_pki scenario_context)) = Panic TypeAssertion\<close>
    by simp
  have \<open>vaultRead ?e (client scenario_context)
          (approlePath scenario_approle scenario_context @ ''/role-id'') = (None, None)\<close>
    by (simp add: vault_env_def scenario_env_def)
  from approleWrite_read_failed [OF this]
  have \<open>snd (snd (approleWrite ?e scenario_approle scenario_context))
          = Return (Some ''Error reading RoleID from Vault: %!s(<nil>)'')\<close>
    by simp
  with nil absent show ?thesis
    by simp
qed

text \<open>
  C7. Delete makes one call: a write to \<open>path + "/revoke"\<close> whose body is exactly
  \<open>{"serial_number": id}\<close> for the recorded identity. A write error is returned as an
  error and the bag is unchanged, so \<open>revocation_time\<close> stays unset; when the write
  returns a secret and no error, \<open>revocation_time\<close> is set to the secret's
  \<open>revocation_time\<close> and Delete returns nil. \<open>revocation_time\<close> changes in no other
  case (a write that returns neither an error nor a secret panics before the
  attribute is set).
\<close>

theorem pkiDelete_revokes_recorded_serial:
  \<open>fst (pkiDelete e d context) =
     [VaultWrite (client context) (GetString d ''path'' @ ''/revoke'')
        [(''serial_number'', VString (GetId d))]] \<and>
   (\<forall>s err.
      vaultWrite e (client context) (GetString d ''path'' @ ''/revoke'')
        [(''serial_number'', VString (GetId d))] = (s, Some err) \<longrightarrow>
      snd (pkiDelete e d context) = (d, Return (Some (''error writing to Vault: '' @ err)))) \<and>
   (\<forall>secret.
      vaultWrite e (client context) (GetString d ''path'' @ ''/revoke'')
        [(''serial_number'', VString (GetId d))] = (Some secret, None) \<longrightarrow>
      snd (pkiDelete e d context) =
        (d\<lparr>attrs := (attrs d)(''revocation_time'' \<mapsto> mapIndex (Data secret) ''revocation_time'')\<rparr>,
         Return None)) \<and>
   (vaultWrite e (client context) (GetString d ''path'' @ ''/revoke'')
      [(''serial_number'', VString (GetId d))] = (None, None) \<longrightarrow>
      snd (pkiDelete e d context) = (d, Panic NilDereference)) \<and>
   (attrs (fst (snd (pkiDelete e d context))) ''revocation_time'' \<noteq> attrs d ''revocation_time''
      \<longrightarrow>
      (\<exists>secret.
         vaultWrite e (client context) (GetString d ''path'' @ ''/revoke'')
           [(''serial_number'', VString (GetId d))] = (Some secret, None) \<and>
         snd (snd (pkiDelete e d context)) = Return None))\<close>
  by (cases \<open>vaultWrite e (client context) (GetString d ''path'' @ ''/revoke'')
                [(''serial_number'', VString (GetId d))]\<close>)
    (auto simp: pkiDelete_def pkiDeleteURI_def mapAssign_def SetAttr_def Let_def
      split: option.splits)

text \<open>
  The certificate \<open>12:34:AB\<close> under \<open>pki_int\<close>, with the backend down: the body
  holds the serial number only, the error is returned and \<open>revocation_time\<close> is unset.
\<close>

theorem pkiDelete_scenario:
  \<open>pkiDelete scenario_env (scenario_pki\<lparr>ident := ''12:34:AB''\<rparr>) scenario_context =
     ([VaultWrite \<lparr>Address = ''https://vault.test:8200'', Token = ''tok-xyz''\<rparr>
         ''pki_int/revoke'' [(''serial_number'', VString ''12:34:AB'')]],
      scenario_pki\<lparr>ident := ''12:34:AB''\<rparr>,
      Return (Some ''error writing to Vault: dial tcp: connection refused'')) \<and>
   attrs (fst (snd (pkiDelete scenario_env (scenario_pki\<lparr>ident := ''12:34:AB''\<rparr>)
                      scenario_context))) ''revocation_time'' = None\<close>
proof -
  let ?d = \<open>scenario_pki\<lparr>ident := ''12:34:AB''\<rparr>\<close>
  have path: \<open>GetString ?d ''path'' @ ''/revoke'' = ''pki_int/revoke''\<close>
    and id: \<open>GetId ?d = ''12:34:AB''\<close>
    by (simp_all add: GetString_def GetId_def scenario_pki_def)
  have cl: \<open>client scenario_context
              = \<lparr>Address = ''https://vault.test:8200'', Token = ''tok-xyz''\<rparr>\<close>
    by (simp add: scenario_context_def)
  have down: \<open>vaultWrite scenario_env (client scenario_context)
                (GetString ?d ''path'' @ ''/revoke'') [(''serial_number'', VString (GetId ?d))]
              = (None, Some ''dial tcp: connection refused'')\<close>
    by (simp add: scenario_env_def)
  note pkiDelete_revokes_recorded_serial [of scenario_env ?d scenario_context]
  with down have \<open>fst (pkiDelete scenario_env ?d scenario_context) =
      [VaultWrite (client scenario_context) (GetString ?d ''path'' @ ''/revoke'')
         [(''serial_number'', VString (GetId ?d))]]\<close>
    and \<open>snd (pkiDelete scenario_env ?d scenario_context) =
      (?d, Return (Some (''error writing to Vault: '' @ ''dial tcp: connection refused'')))\<close>
    by blast+
  then have run: \<open>pkiDelete scenario_env ?d scenario_context =
     ([VaultWrite \<lparr>Address = ''https://vault.test:8200'', Token = ''tok-xyz''\<rparr>
         ''pki_int/revoke'' [(''serial_number'', VString ''12:34:AB'')]],
      ?d, Return (Some ''error writing to Vault: dial tcp: connection refused''))\<close>
    by (simp only: path id cl prod_eq_iff fst_conv snd_conv) simp
  have \<open>attrs ?d ''revocation_time'' = None\<close>
    by (simp add: scenario_pki_def)
  with run show ?thesis
    by (simp only: fst_conv snd_conv)
qed

text \<open>
  C8. Read of an AppRole and Read of a certificate return nil, make no call and leave
  the bag, with its \<open>secret_id\<close>, as it was.
\<close>

theorem read_is_noop:
  \<open>approleRead d meta = ([], d, Return None) \<and>
   attrs (fst (snd (approleRead d meta))) ''secret_id'' = attrs d ''secret_id'' \<and>
   pkiRead d meta = ([], d, Return None)\<close>
  by (simp add: approleRead_def pkiRead_def)

end
